theory Spec2Isabelle
  imports Complex_Main
begin

section \<open>Numbers, vectors and arrays\<close>

text \<open>
  JavaScript numbers are modelled as real numbers: every arithmetic operation of the
  source is the exact operation on \<^typ>\<open>real\<close>. A \<^verbatim>\<open>THREE.Vector3\<close> (and a
  \<^verbatim>\<open>THREE.Euler\<close>) is a triple, a JavaScript array of numbers is a list.
\<close>

type_synonym vec3 = "real \<times> real \<times> real"

definition vx :: "vec3 \<Rightarrow> real" where
  "vx v = fst v"

definition vy :: "vec3 \<Rightarrow> real" where
  "vy v = fst (snd v)"

definition vz :: "vec3 \<Rightarrow> real" where
  "vz v = snd (snd v)"

text \<open>\<^verbatim>\<open>[v.x, v.y, v.z]\<close>\<close>

definition arr :: "vec3 \<Rightarrow> real list" where
  "arr v = [vx v, vy v, vz v]"

text \<open>
  \<^verbatim>\<open>v.set(a[0], a[1], a[2])\<close>; every array the source passes here has three entries.
\<close>

definition vec_of :: "real list \<Rightarrow> vec3" where
  "vec_of a = (a ! 0, a ! 1, a ! 2)"

text \<open>\<^verbatim>\<open>THREE.MathUtils.radToDeg\<close> and \<^verbatim>\<open>degToRad\<close>\<close>

definition radToDeg :: "real \<Rightarrow> real" where
  "radToDeg r = r * (180 / pi)"

definition degToRad :: "real \<Rightarrow> real" where
  "degToRad d = d * (pi / 180)"

text \<open>\<^verbatim>\<open>Math.round\<close>: the nearest integer, a tie going up.\<close>

definition js_round :: "real \<Rightarrow> real" where
  "js_round x = of_int \<lfloor>x + 1 / 2\<rfloor>"

text \<open>
  \<^verbatim>\<open>Math.round(val * 100) / 100\<close>, the rounding of \<^verbatim>\<open>updateCamera\<close>, on real
  numbers. On the doubles of JavaScript the product and the quotient are rounded
  themselves, so that for some values the stored double is the neighbour of the one
  given here: for 1.005 the product is just below 100.5 and the code stores 1.
\<close>

definition round2 :: "real \<Rightarrow> real" where
  "round2 val = js_round (val * 100) / 100"

text \<open>A JavaScript string is truthy when it is not empty; \<^verbatim>\<open>a || b\<close> on strings.\<close>

definition js_or :: "string \<Rightarrow> string \<Rightarrow> string" where
  "js_or a b = (if a = [] then b else a)"

section \<open>The loaded asset\<close>

text \<open>
  What the component \<^verbatim>\<open>Model\<close> reads of the value returned by \<^verbatim>\<open>useGLTF\<close>:
  the authored cameras with their world transform and projection parameters, the
  animation clips, and the size and centre of \<^verbatim>\<open>new THREE.Box3().setFromObject(gltf.scene)\<close>.
  Lights and the scene's background, environment and fog are passed through by the
  source untouched and are left out.
\<close>

type_synonym quat = "real \<times> real \<times> real \<times> real"

record three_camera =
  worldPosition :: vec3
  worldQuaternion :: quat
  cam_fov :: real
  cam_near :: real
  cam_far :: real
  cam_zoom :: real

record clip =
  clip_name :: string
  clip_duration :: real

record gltf =
  cameras :: "three_camera list"
  animations :: "clip list"
  box_size :: vec3
  box_center :: vec3

text \<open>
  The camera entry of the scene settings handed to \<^verbatim>\<open>onLoad\<close>. The framing branch
  writes no \<^verbatim>\<open>near\<close>, \<^verbatim>\<open>far\<close> or \<^verbatim>\<open>zoom\<close> key, hence the options.
\<close>

record settings_camera =
  set_position :: "real list"
  set_target :: "real list"
  set_fov :: real
  set_near :: "real option"
  set_far :: "real option"
  set_zoom :: "real option"

record scene_settings =
  set_camera :: settings_camera
  set_animations :: "string list"
  scene_offset :: vec3

text \<open>
  \<^verbatim>\<open>Vector3.applyQuaternion\<close> of three.js, with the quaternion as \<open>(x, y, z, w)\<close>.
\<close>

definition applyQuaternion :: "quat \<Rightarrow> vec3 \<Rightarrow> vec3" where
  "applyQuaternion q v =
     (case q of (qx, qy, qz, qw) \<Rightarrow>
        let tx = 2 * (qy * vz v - qz * vy v);
            ty = 2 * (qz * vx v - qx * vz v);
            tz = 2 * (qx * vy v - qy * vx v)
        in (vx v + qw * tx + qy * tz - qz * ty,
            vy v + qw * ty + qz * tx - qx * tz,
            vz v + qw * tz + qx * ty - qy * tx))"

definition vadd :: "vec3 \<Rightarrow> vec3 \<Rightarrow> vec3" where
  "vadd a b = (vx a + vx b, vy a + vy b, vz a + vz b)"

text \<open>The placeholder name of an unnamed clip, as its UTF-8 bytes.\<close>

definition unnamedAnimation :: string where
  "unnamedAnimation =
     [CHR 0xE6, CHR 0x9C, CHR 0xAA, CHR 0xE5, CHR 0x91, CHR 0xBD, CHR 0xE5, CHR 0x90, CHR 0x8D,
      CHR 0xE5, CHR 0x8A, CHR 0xA8, CHR 0xE7, CHR 0x94, CHR 0xBB]"

definition animationNames :: "gltf \<Rightarrow> string list" where
  "animationNames g = map (\<lambda>anim. js_or (clip_name anim) unnamedAnimation) (animations g)"

subsection \<open>The authored-camera branch\<close>

definition authoredSettings :: "gltf \<Rightarrow> three_camera \<Rightarrow> scene_settings" where
  "authoredSettings g camera =
     (let position = worldPosition camera;
          quaternion = worldQuaternion camera;
          direction = applyQuaternion quaternion (0, 0, -1);
          target = vadd position direction
      in \<lparr> set_camera =
             \<lparr> set_position = arr position,
               set_target = arr target,
               set_fov = cam_fov camera,
               set_near = Some (cam_near camera),
               set_far = Some (cam_far camera),
               set_zoom = Some (cam_zoom camera) \<rparr>,
           set_animations = animationNames g,
           scene_offset = (0, 0, 0) \<rparr>)"

subsection \<open>The framing branch\<close>

definition maxDim :: "gltf \<Rightarrow> real" where
  "maxDim g = max (max (vx (box_size g)) (vy (box_size g))) (vz (box_size g))"

definition fov :: real where
  "fov = 50"

definition cameraDistance :: "gltf \<Rightarrow> real" where
  "cameraDistance g = maxDim g / (2 * tan ((fov * pi) / 360))"

definition distance :: "gltf \<Rightarrow> real" where
  "distance g = cameraDistance g * (12 / 10)"

definition verticalAngle :: real where
  "verticalAngle = pi / 6"

definition horizontalAngle :: real where
  "horizontalAngle = (pi * 3) / 4"

definition height :: "gltf \<Rightarrow> real" where
  "height g = distance g * sin verticalAngle"

definition radius :: "gltf \<Rightarrow> real" where
  "radius g = distance g * cos verticalAngle"

text \<open>
  \<open>scene_offset\<close> is the translation the branch writes into \<^verbatim>\<open>gltf.scene.position\<close>.
\<close>

definition framedSettings :: "gltf \<Rightarrow> scene_settings" where
  "framedSettings g =
     \<lparr> set_camera =
         \<lparr> set_position =
             [radius g * cos horizontalAngle, height g, radius g * sin horizontalAngle],
           set_target = [0, 0, 0],
           set_fov = fov,
           set_near = None,
           set_far = None,
           set_zoom = None \<rparr>,
       set_animations = animationNames g,
       scene_offset = (- vx (box_center g), - vy (box_center g), - vz (box_center g)) \<rparr>"

text \<open>
  The scene settings computed by the load effect: \<^verbatim>\<open>gltf.cameras?.[0]\<close> selects the
  authored branch, otherwise \<^verbatim>\<open>!sceneSettings?.camera\<close> holds and the framing runs.
\<close>

definition computeSceneSettings :: "gltf \<Rightarrow> scene_settings" where
  "computeSceneSettings g =
     (case cameras g of
        camera # _ \<Rightarrow> authoredSettings g camera
      | [] \<Rightarrow> framedSettings g)"

text \<open>Two assets used as examples: a cube of half-extent 1 and a single point.\<close>

definition unitCube :: gltf where
  "unitCube = \<lparr> cameras = [], animations = [], box_size = (2, 2, 2), box_center = (0, 0, 0) \<rparr>"

definition pointScene :: gltf where
  "pointScene = \<lparr> cameras = [], animations = [], box_size = (0, 0, 0), box_center = (0, 0, 0) \<rparr>"



section \<open>Animation playback\<close>

subsection \<open>Actions\<close>

text \<open>
  A \<^verbatim>\<open>THREE.AnimationAction\<close>, reduced to what the component touches: its clip, its
  local time, the \<^verbatim>\<open>paused\<close> and \<^verbatim>\<open>enabled\<close> flags, whether the mixer has it
  scheduled, and its loop mode. The methods follow the documentation of three.js:
  \<^verbatim>\<open>play\<close> schedules the action and changes nothing else, \<^verbatim>\<open>reset\<close> clears
  \<^verbatim>\<open>paused\<close>, sets \<^verbatim>\<open>enabled\<close> and rewinds, \<^verbatim>\<open>stop\<close> unschedules and resets.
\<close>

datatype loop_mode = LoopOnce | LoopRepeat | LoopPingPong

record action =
  getClip :: clip
  time :: real
  paused :: bool
  enabled :: bool
  scheduled :: bool
  loop :: loop_mode

definition play :: "action \<Rightarrow> action" where
  "play a = a\<lparr>scheduled := True\<rparr>"

definition reset :: "action \<Rightarrow> action" where
  "reset a = a\<lparr>paused := False, enabled := True, time := 0\<rparr>"

definition stop :: "action \<Rightarrow> action" where
  "stop a = reset (a\<lparr>scheduled := False\<rparr>)"

definition setLoop :: "loop_mode \<Rightarrow> action \<Rightarrow> action" where
  "setLoop m a = a\<lparr>loop := m\<rparr>"

definition isRunning :: "action \<Rightarrow> bool" where
  "isRunning a = (enabled a \<and> \<not> paused a \<and> scheduled a)"

text \<open>
  The actions that \<^verbatim>\<open>useAnimations(gltf.animations, modelRef)\<close> of drei keeps: one
  fresh action per clip, under the clip's name.
\<close>

definition newAction :: "clip \<Rightarrow> action" where
  "newAction c =
     \<lparr> getClip = c, time = 0, paused = False, enabled = True, scheduled = False,
       loop = LoopRepeat \<rparr>"

definition useAnimations :: "clip list \<Rightarrow> (string \<rightharpoonup> action)" where
  "useAnimations clips = map_of (map (\<lambda>c. (clip_name c, newAction c)) clips)"

subsection \<open>State of the player\<close>

text \<open>
  \<^verbatim>\<open>isPlaying\<close> is declared as one of the strings \<^verbatim>\<open>'playing' | 'paused' | 'stopped'\<close>,
  but the source also stores a boolean in it, so it is a JavaScript value.
\<close>

datatype jsval = JStr string | JBool bool

text \<open>
  The animation state of \<^verbatim>\<open>ModelScene\<close> (\<open>currentAnimation\<close>, \<open>isPlaying\<close>,
  \<open>progress\<close>, \<open>animationList\<close> for the state \<^verbatim>\<open>animations\<close>) together with the state
  of the mounted \<^verbatim>\<open>Model\<close> (\<open>hasLoaded\<close>, \<open>isVisible\<close>, \<open>isInitialized\<close>).
  \<open>mixerActions\<close> are the actions the hook \<^verbatim>\<open>useAnimations\<close> keeps for the clips of
  the asset. \<open>rootAttached\<close> tells whether the \<^verbatim>\<open>modelRef.current\<close> of \<^verbatim>\<open>Model\<close>
  is set, that is whether the last render has put the group of the model into the scene;
  \<open>modelRef\<close> tells whether the \<^verbatim>\<open>modelRef.current\<close> of \<^verbatim>\<open>ModelScene\<close> holds the
  imperative handle. \<^verbatim>\<open>null\<close> is \<open>None\<close>.
\<close>

record player =
  currentAnimation :: "string option"
  isPlaying :: jsval
  progress :: real
  animationList :: "string list"
  hasLoaded :: bool
  isVisible :: bool
  isInitialized :: bool
  mixerActions :: "string \<rightharpoonup> action"
  rootAttached :: bool
  modelRef :: bool

definition initialPlayer :: player where
  "initialPlayer =
     \<lparr> currentAnimation = None, isPlaying = JStr ''playing'', progress = 0,
       animationList = [], hasLoaded = False, isVisible = False, isInitialized = False,
       mixerActions = Map.empty, rootAttached = False, modelRef = False \<rparr>"

text \<open>
  The object \<^verbatim>\<open>actions\<close> of \<^verbatim>\<open>useAnimations\<close>: \<^verbatim>\<open>actions[name]\<close> is a getter that
  yields the action of the clip of that name, and yields \<^verbatim>\<open>undefined\<close> as long as the
  root is not attached. The source changes an action in place; \<open>setAction\<close> is that write.
\<close>

definition actions :: "player \<Rightarrow> (string \<rightharpoonup> action)" where
  "actions s = (if rootAttached s then mixerActions s else Map.empty)"

definition setAction :: "string \<Rightarrow> action \<Rightarrow> player \<Rightarrow> player" where
  "setAction name a s = s\<lparr>mixerActions := (mixerActions s)(name \<mapsto> a)\<rparr>"

text \<open>\<^verbatim>\<open>currentAnimation && actions[currentAnimation]\<close>\<close>

definition currentAction :: "player \<Rightarrow> action option" where
  "currentAction s =
     (case currentAnimation s of
        None \<Rightarrow> None
      | Some name \<Rightarrow> if name = [] then None else actions s name)"

subsection \<open>Effects of the component Model\<close>

text \<open>The effect that plays the first animation once the model has loaded.\<close>

definition autoPlayEffect :: "gltf \<Rightarrow> player \<Rightarrow> player" where
  "autoPlayEffect g s =
     (if animations g \<noteq> [] \<and> \<not> isInitialized s then
        let firstAnimation = js_or (clip_name (hd (animations g))) ''0'';
            s1 = s\<lparr>currentAnimation := Some firstAnimation, isPlaying := JBool True,
                   isInitialized := True\<rparr>
        in (case actions s1 firstAnimation of
              Some action \<Rightarrow> setAction firstAnimation (setLoop LoopRepeat (play (reset action))) s1
            | None \<Rightarrow> s1)
      else s)"

text \<open>The effect that applies \<open>isPlaying\<close> to the action of the current animation.\<close>

definition animationStateEffect :: "player \<Rightarrow> player" where
  "animationStateEffect s =
     (if \<not> isInitialized s then s
      else
        (case currentAnimation s of
           None \<Rightarrow> s
         | Some name \<Rightarrow>
             if name = [] then s
             else
               (case actions s name of
                  None \<Rightarrow> s
                | Some action \<Rightarrow>
                    if isPlaying s = JStr ''playing'' then
                      setAction name (play (action\<lparr>paused := False\<rparr>)) s
                    else if isPlaying s = JStr ''paused'' then
                      setAction name (action\<lparr>paused := True\<rparr>) s
                    else if isPlaying s = JStr ''stopped'' then
                      setAction name (reset (stop action)) s
                    else s)))"

text \<open>The effect on \<^verbatim>\<open>modelUrl\<close>, which resets the loading state.\<close>

definition modelUrlEffect :: "player \<Rightarrow> player" where
  "modelUrlEffect s = s\<lparr>hasLoaded := False, isVisible := False\<rparr>"

text \<open>
  The load effect, as far as the player is concerned: guarded by \<open>hasLoaded\<close>, it
  computes the scene settings and hands them to \<^verbatim>\<open>onLoad\<close>, that is to
  \<^verbatim>\<open>handleModelLoad\<close>, which stores the animation names and, when the orbit
  controls exist (\<open>controlsPresent\<close>), calls back to make the model visible.
\<close>

definition loadEffect :: "gltf \<Rightarrow> bool \<Rightarrow> player \<Rightarrow> player" where
  "loadEffect g controlsPresent s =
     (if \<not> hasLoaded s then
        let settings = computeSceneSettings g
        in s\<lparr>hasLoaded := True, animationList := set_animations settings,
             isVisible := controlsPresent\<rparr>
      else s)"

text \<open>
  A new asset arrives while the component stays mounted (\<^verbatim>\<open>modelUrl\<close> changes from
  one URL to another). The hook \<^verbatim>\<open>useAnimations\<close> keeps fresh actions for the new
  clips (the cleanup of the last effect of the source has stopped the actions of the old
  asset, which are gone with it), then the effects run in the order of the source: the
  effect on \<^verbatim>\<open>modelUrl\<close>, the load effect, the auto-play effect, and the
  animation-state effect, which is the last to see the state the others left.
  While these effects run, the root is attached or not as the render before them left
  it: \<open>isVisible\<close> is a state, and what the effects and the callback of the load write
  into it shows in the scene with the renders that follow, after which the root is
  attached exactly when the model is visible.
  The state \<open>isInitialized\<close> is written by the auto-play effect alone.
\<close>

definition loadAsset :: "gltf \<Rightarrow> bool \<Rightarrow> player \<Rightarrow> player" where
  "loadAsset g controlsPresent s =
     (let s0 = s\<lparr>mixerActions := useAnimations (animations g), modelRef := True\<rparr>;
          s1 = modelUrlEffect s0;
          s2 = loadEffect g controlsPresent s1;
          s3 = animationStateEffect (autoPlayEffect g s2)
      in s3\<lparr>rootAttached := isVisible s3\<rparr>)"

text \<open>
  The component is mounted afresh (the first asset, or an asset chosen after the button
  Remove Model): its own state starts from the initial values of \<^verbatim>\<open>useState\<close>
  and \<^verbatim>\<open>useRef\<close>, with nothing rendered yet; the state of \<^verbatim>\<open>ModelScene\<close> is kept.
\<close>

definition mountModel :: "gltf \<Rightarrow> bool \<Rightarrow> player \<Rightarrow> player" where
  "mountModel g controlsPresent s =
     loadAsset g controlsPresent
       (s\<lparr>hasLoaded := False, isVisible := False, isInitialized := False, rootAttached := False\<rparr>)"

subsection \<open>Handlers of the animation panel\<close>

text \<open>
  After a handler has changed \<open>currentAnimation\<close> or \<open>isPlaying\<close>, React renders
  again and runs the animation-state effect, whose dependencies these are.
\<close>

definition rerender :: "player \<Rightarrow> player \<Rightarrow> player" where
  "rerender old new =
     (if currentAnimation new \<noteq> currentAnimation old \<or> isPlaying new \<noteq> isPlaying old
      then animationStateEffect new else new)"

text \<open>
  The \<^verbatim>\<open>onChange\<close> of the animation select; the option No Animation has the empty
  string as its value.
\<close>

definition selectAnimation :: "string \<Rightarrow> player \<Rightarrow> player" where
  "selectAnimation v s =
     rerender s (s\<lparr>currentAnimation := Some v,
                   isPlaying := JStr (if v \<noteq> [] then ''playing'' else ''stopped'')\<rparr>)"

text \<open>The buttons Play, Pause and Stop: \<^verbatim>\<open>setIsPlaying('playing')\<close> and so on.\<close>

definition setIsPlaying :: "string \<Rightarrow> player \<Rightarrow> player" where
  "setIsPlaying v s = rerender s (s\<lparr>isPlaying := JStr v\<rparr>)"

definition handleProgress :: "real \<Rightarrow> player \<Rightarrow> player" where
  "handleProgress p s =
     (case currentAnimation s of
        None \<Rightarrow> s
      | Some name \<Rightarrow>
          if name = [] then s
          else
            (case actions s name of
               None \<Rightarrow> s
             | Some action \<Rightarrow>
                 let duration = clip_duration (getClip action);
                     a1 = action\<lparr>time := duration * p\<rparr>;
                     a2 = (if paused a1 then (play a1)\<lparr>paused := True\<rparr> else a1)
                 in setAction name a2 s))"

definition handleProgressChange :: "real \<Rightarrow> player \<Rightarrow> player" where
  "handleProgressChange v s =
     (let s1 = s\<lparr>progress := v\<rparr>
      in if modelRef s1 then handleProgress v s1 else s1)"

text \<open>
  \<^verbatim>\<open>getDuration\<close> of the imperative handle. Reading \<^verbatim>\<open>.getClip()\<close> of a missing
  action would raise a \<^verbatim>\<open>TypeError\<close>; \<open>clipDurationOf\<close> is that member access.
\<close>

datatype js_error = TypeError

definition clipDurationOf :: "action option \<Rightarrow> js_error + real" where
  "clipDurationOf a =
     (case a of None \<Rightarrow> Inl TypeError | Some action \<Rightarrow> Inr (clip_duration (getClip action)))"

definition getDuration :: "player \<Rightarrow> js_error + real" where
  "getDuration s =
     (case currentAnimation s of
        None \<Rightarrow> Inr 0
      | Some name \<Rightarrow>
          if name \<noteq> [] \<and> actions s name \<noteq> None then clipDurationOf (actions s name)
          else Inr 0)"

text \<open>Example assets with animation clips.\<close>

definition walk :: clip where
  "walk = \<lparr> clip_name = ''Walk'', clip_duration = 4 \<rparr>"

definition runClip :: clip where
  "runClip = \<lparr> clip_name = ''Run'', clip_duration = 2 \<rparr>"

definition walkAsset :: gltf where
  "walkAsset = \<lparr> cameras = [], animations = [walk], box_size = (2, 2, 2), box_center = (0, 0, 0) \<rparr>"

definition runAsset :: gltf where
  "runAsset = \<lparr> cameras = [], animations = [runClip], box_size = (2, 2, 2), box_center = (0, 0, 0) \<rparr>"

definition walkRunAsset :: gltf where
  "walkRunAsset =
     \<lparr> cameras = [], animations = [walk, runClip], box_size = (2, 2, 2), box_center = (0, 0, 0) \<rparr>"

section \<open>Camera authority\<close>

subsection \<open>State\<close>

text \<open>The stored pose, \<^verbatim>\<open>sceneSettings.camera\<close> of \<^verbatim>\<open>ModelScene\<close>.\<close>

record camera_pose =
  position :: "real list"
  rotation :: "real list"
  zoom :: real
  target :: "real list"
  pose_fov :: real
  near :: real
  far :: real

text \<open>
  The objects of three.js behind \<^verbatim>\<open>cameraRef.current\<close> and \<^verbatim>\<open>controlsRef.current\<close>:
  the camera with its position and its Euler rotation in radians, and the orbit
  controls with their target and their switches.
\<close>

record live_camera =
  cam_pos :: vec3
  cam_rot :: vec3

record orbit_controls =
  ctl_target :: vec3
  ctl_enabled :: bool
  enablePan :: bool
  enableZoom :: bool
  enableRotate :: bool

text \<open>
  \<open>changeListener\<close> is the handler \<^verbatim>\<open>handleChange\<close> registered for the event
  \<^verbatim>\<open>'change'\<close> of the controls, if any, as the value of \<open>orbitControlsEnabled\<close>
  its closure has captured. \<open>kiosk\<close> is \<^verbatim>\<open>config.kiosk\<close>.
\<close>

record viewer =
  sceneSettings :: camera_pose
  orbitControlsEnabled :: bool
  kiosk :: bool
  cameraRef :: "live_camera option"
  controlsRef :: "orbit_controls option"
  changeListener :: "bool option"

definition initialViewer :: viewer where
  "initialViewer =
     \<lparr> sceneSettings =
         \<lparr> position = [- 35 / 10, 3, 35 / 10], rotation = [0, 0, 0], zoom = 1,
           target = [0, 0, 0], pose_fov = 50, near = 1 / 10, far = 1000 \<rparr>,
       orbitControlsEnabled = True, kiosk = False, cameraRef = None, controlsRef = None,
       changeListener = None \<rparr>"

subsection \<open>Writing the stored pose\<close>

text \<open>The argument of \<^verbatim>\<open>updateCamera\<close>: an object with some of three keys.\<close>

record camera_updates =
  upd_position :: "real list option"
  upd_rotation :: "real list option"
  upd_target :: "real list option"

definition updateCamera :: "camera_updates \<Rightarrow> viewer \<Rightarrow> viewer" where
  "updateCamera updates s =
     (let processedRotation = map_option (map round2) (upd_rotation updates);
          processedPosition = map_option (map round2) (upd_position updates);
          prev = sceneSettings s;
          c1 = (case processedPosition of None \<Rightarrow> prev | Some p \<Rightarrow> prev\<lparr>position := p\<rparr>);
          c2 = (case processedRotation of None \<Rightarrow> c1 | Some r \<Rightarrow> c1\<lparr>rotation := r\<rparr>);
          c3 = (case upd_target updates of None \<Rightarrow> c2 | Some t \<Rightarrow> c2\<lparr>target := t\<rparr>)
      in s\<lparr>sceneSettings := c3\<rparr>)"

subsection \<open>The listener of the orbit controls\<close>

text \<open>
  The listener of the orbit controls. \<open>captured\<close> is the value of
  \<open>orbitControlsEnabled\<close> in the closure.
\<close>

definition handleChange :: "bool \<Rightarrow> viewer \<Rightarrow> viewer" where
  "handleChange captured s =
     (case cameraRef s of
        None \<Rightarrow> s
      | Some camera \<Rightarrow>
          if \<not> captured then s
          else
            (case controlsRef s of
               None \<Rightarrow> s
             | Some controls \<Rightarrow>
                 let pos = cam_pos camera;
                     rot = cam_rot camera;
                     tgt = ctl_target controls;
                     rotationDeg = [radToDeg (vx rot), radToDeg (vy rot), radToDeg (vz rot)]
                 in s\<lparr>sceneSettings :=
                        (sceneSettings s)\<lparr>position := [vx pos, vy pos, vz pos],
                                           target := [vx tgt, vy tgt, vz tgt],
                                           rotation := rotationDeg\<rparr>\<rparr>))"

text \<open>The event \<^verbatim>\<open>'change'\<close> reaches the listener that is registered, if one is.\<close>

definition dispatchChange :: "viewer \<Rightarrow> viewer" where
  "dispatchChange s =
     (case changeListener s of None \<Rightarrow> s | Some captured \<Rightarrow> handleChange captured s)"

text \<open>
  \<^verbatim>\<open>controls.update()\<close> of three.js puts the camera on its orbit around the target of
  the controls and turns it to the target; when that has changed the camera, the
  controls dispatch \<^verbatim>\<open>'change'\<close> before the call returns. What three.js computes is a
  parameter: \<open>None\<close> when the call changed nothing, \<open>Some (pos, rot)\<close> with the
  position and the rotation it gave the camera.
\<close>

definition controlsUpdate :: "(vec3 \<times> vec3) option \<Rightarrow> viewer \<Rightarrow> viewer" where
  "controlsUpdate outcome s =
     (case outcome of
        None \<Rightarrow> s
      | Some (pos, rot) \<Rightarrow>
          dispatchChange
            (s\<lparr>cameraRef := map_option (\<lambda>camera. camera\<lparr>cam_pos := pos, cam_rot := rot\<rparr>) (cameraRef s)\<rparr>))"

subsection \<open>Manual edits\<close>

text \<open>
  Each handler switches the orbit controls off, writes its field with
  \<^verbatim>\<open>updateCamera\<close> and moves the object of three.js. The state
  \<open>orbitControlsEnabled\<close> takes effect with the render that follows: while the handler
  runs, the listener is registered as before. The handler of the target ends with
  \<^verbatim>\<open>controlsRef.current.update()\<close>, so a \<^verbatim>\<open>'change'\<close> dispatched from there reaches
  that listener, whose write of the pose comes after the write of the handler.
  \<^verbatim>\<open>updateProjectionMatrix\<close> touches no field of the camera kept here.
\<close>

definition handleCameraRotation :: "real list \<Rightarrow> viewer \<Rightarrow> viewer" where
  "handleCameraRotation rotationValues s =
     (let s1 = s\<lparr>orbitControlsEnabled := False\<rparr>;
          s2 = updateCamera \<lparr>upd_position = None, upd_rotation = Some rotationValues, upd_target = None\<rparr> s1
      in (case cameraRef s2 of
            None \<Rightarrow> s2
          | Some camera \<Rightarrow>
              s2\<lparr>cameraRef := Some (camera\<lparr>cam_rot := vec_of (map degToRad rotationValues)\<rparr>)\<rparr>))"

definition handleTargetChange :: "real list \<Rightarrow> (vec3 \<times> vec3) option \<Rightarrow> viewer \<Rightarrow> viewer" where
  "handleTargetChange targetValues outcome s =
     (let s1 = s\<lparr>orbitControlsEnabled := False\<rparr>;
          s2 = updateCamera \<lparr>upd_position = None, upd_rotation = None, upd_target = Some targetValues\<rparr> s1
      in (case controlsRef s2 of
            None \<Rightarrow> s2
          | Some controls \<Rightarrow>
              controlsUpdate outcome
                (s2\<lparr>controlsRef := Some (controls\<lparr>ctl_target := vec_of targetValues\<rparr>)\<rparr>)))"

definition handlePositionChange :: "real list \<Rightarrow> viewer \<Rightarrow> viewer" where
  "handlePositionChange positionValues s =
     (let s1 = s\<lparr>orbitControlsEnabled := False\<rparr>;
          s2 = updateCamera \<lparr>upd_position = Some positionValues, upd_rotation = None, upd_target = None\<rparr> s1
      in (case cameraRef s2 of
            None \<Rightarrow> s2
          | Some camera \<Rightarrow> s2\<lparr>cameraRef := Some (camera\<lparr>cam_pos := vec_of positionValues\<rparr>)\<rparr>))"

definition toggleOrbitControls :: "viewer \<Rightarrow> viewer" where
  "toggleOrbitControls s = s\<lparr>orbitControlsEnabled := \<not> orbitControlsEnabled s\<rparr>"

subsection \<open>Reset\<close>

text \<open>\<^verbatim>\<open>Vector3.distanceTo\<close>\<close>

definition distanceTo :: "vec3 \<Rightarrow> vec3 \<Rightarrow> real" where
  "distanceTo a b = sqrt ((vx a - vx b)\<^sup>2 + (vy a - vy b)\<^sup>2 + (vz a - vz b)\<^sup>2)"

text \<open>
  The distance \<^verbatim>\<open>resetCameraToViewTarget\<close> places the camera at: the current one, or 10
  when the camera sits on the target.
\<close>

definition resetDistance :: "real \<Rightarrow> real" where
  "resetDistance currentDistance = (if currentDistance > 0 then currentDistance else 10)"

text \<open>
  \<open>lookAtRotation\<close> is the rotation the camera has after three.js has carried out
  \<^verbatim>\<open>camera.lookAt(target)\<close>; it is a parameter.
\<close>

definition resetCameraToViewTarget :: "vec3 \<Rightarrow> viewer \<Rightarrow> viewer" where
  "resetCameraToViewTarget lookAtRotation s =
     (case cameraRef s of
        None \<Rightarrow> s
      | Some camera \<Rightarrow>
          (case controlsRef s of
             None \<Rightarrow> s
           | Some controls \<Rightarrow>
               let tgt = ctl_target controls;
                   currentDistance = distanceTo (cam_pos camera) tgt;
                   dist = resetDistance currentDistance;
                   defaultRotation = [0, 0, 0];
                   pos = [round2 (vx tgt + 0), round2 (vy tgt + dist * (5 / 10)), round2 (vz tgt + dist)];
                   s1 = updateCamera \<lparr>upd_position = Some pos, upd_rotation = Some defaultRotation,
                                      upd_target = None\<rparr> s;
                   s2 = s1\<lparr>cameraRef := Some (camera\<lparr>cam_pos := vec_of pos, cam_rot := lookAtRotation\<rparr>)\<rparr>;
                   rotationDeg = map radToDeg (arr lookAtRotation);
                   s3 = updateCamera \<lparr>upd_position = None, upd_rotation = Some rotationDeg,
                                      upd_target = None\<rparr> s2
               in s3\<lparr>orbitControlsEnabled := True\<rparr>))"

subsection \<open>Loading a model\<close>

text \<open>
  \<^verbatim>\<open>handleModelLoad\<close>: the camera settings of the asset are spread over the stored
  pose, then, in a callback of the next frame, the camera and the target of the controls
  are moved. The \<^verbatim>\<open>controls.update()\<close> of that callback runs in a later frame than
  the write of the pose; a \<^verbatim>\<open>'change'\<close> it dispatches is an event \<open>OrbitChange\<close> that
  follows the load.
\<close>

definition mergeCamera :: "camera_pose \<Rightarrow> settings_camera \<Rightarrow> camera_pose" where
  "mergeCamera prev c =
     prev\<lparr> position := set_position c,
           target := set_target c,
           pose_fov := set_fov c,
           near := (case set_near c of None \<Rightarrow> near prev | Some v \<Rightarrow> v),
           far := (case set_far c of None \<Rightarrow> far prev | Some v \<Rightarrow> v),
           zoom := (case set_zoom c of None \<Rightarrow> zoom prev | Some v \<Rightarrow> v) \<rparr>"

definition handleModelLoad :: "scene_settings \<Rightarrow> viewer \<Rightarrow> viewer" where
  "handleModelLoad settings s =
     (let s1 = s\<lparr>sceneSettings := mergeCamera (sceneSettings s) (set_camera settings)\<rparr>
      in (case controlsRef s1 of
            None \<Rightarrow> s1
          | Some controls \<Rightarrow>
              s1\<lparr>cameraRef :=
                    map_option (\<lambda>camera. camera\<lparr>cam_pos := vec_of (set_position (set_camera settings))\<rparr>)
                      (cameraRef s1),
                  controlsRef :=
                    Some (controls\<lparr>ctl_target := vec_of (set_target (set_camera settings))\<rparr>)\<rparr>))"

subsection \<open>The effects of the scene\<close>

text \<open>
  The effect with the dependencies \<^verbatim>\<open>[controlsRef.current, orbitControlsEnabled, config.kiosk]\<close>.
  When it runs again, the cleanup of its last run has removed the listener first. Its
  own calls of \<^verbatim>\<open>controls.update()\<close> come after that cleanup and before
  \<^verbatim>\<open>addEventListener\<close>, so no listener of the scene hears them.
\<close>

definition orbitControlsEffect :: "viewer \<Rightarrow> viewer" where
  "orbitControlsEffect s =
     (let s0 = s\<lparr>changeListener := None\<rparr>
      in (case controlsRef s0 of
            None \<Rightarrow> s0
          | Some controls \<Rightarrow>
              if \<not> orbitControlsEnabled s0 then
                s0\<lparr>controlsRef :=
                      Some (controls\<lparr>enablePan := False, enableZoom := False,
                                      enableRotate := False, ctl_enabled := False\<rparr>)\<rparr>
              else
                s0\<lparr>controlsRef :=
                      Some (controls\<lparr>enablePan := True, enableZoom := True,
                                      enableRotate := (True \<and> \<not> kiosk s0), ctl_enabled := True\<rparr>),
                    changeListener := Some (orbitControlsEnabled s0)\<rparr>))"

text \<open>
  The effect with the dependencies \<^verbatim>\<open>[cameraRef.current, controlsRef.current]\<close>, which
  copies the pose of the camera into the state once both exist.
\<close>

definition initCameraEffect :: "viewer \<Rightarrow> viewer" where
  "initCameraEffect s =
     (case cameraRef s of
        None \<Rightarrow> s
      | Some camera \<Rightarrow>
          (case controlsRef s of
             None \<Rightarrow> s
           | Some controls \<Rightarrow>
               let pos = cam_pos camera;
                   rot = cam_rot camera;
                   tgt = ctl_target controls;
                   rotationDeg = [radToDeg (vx rot), radToDeg (vy rot), radToDeg (vz rot)]
               in s\<lparr>sceneSettings :=
                      (sceneSettings s)\<lparr>position := [vx pos, vy pos, vz pos],
                                         target := [vx tgt, vy tgt, vz tgt],
                                         rotation := rotationDeg\<rparr>\<rparr>))"

subsection \<open>Events\<close>

text \<open>
  What can happen to the scene. \<open>OrbitChange pos rot tgt\<close>: the orbit controls have
  moved the camera to \<open>pos\<close> and \<open>rot\<close> and their target to \<open>tgt\<close>, and dispatch
  \<^verbatim>\<open>'change'\<close>. The three edits are the camera fields of the panel, the one of
  the target with what \<^verbatim>\<open>controls.update()\<close> does in its handler,
  \<open>ToggleOrbit\<close> its checkbox, \<open>ResetCamera\<close> its reset button (with the rotation
  that \<^verbatim>\<open>lookAt\<close> yields), \<open>SetKiosk\<close> a change of \<^verbatim>\<open>config.kiosk\<close>.
  \<open>CanvasMounted\<close> and \<open>CanvasRemoved\<close>: the canvas with the camera and the
  controls appears with a model and goes with it. \<open>ModelLoaded\<close>: the callback
  \<^verbatim>\<open>onLoad\<close> of the model.
\<close>

datatype event =
    OrbitChange vec3 vec3 vec3
  | PositionEdit "real list"
  | RotationEdit "real list"
  | TargetEdit "real list" "(vec3 \<times> vec3) option"
  | ToggleOrbit
  | ResetCamera vec3
  | SetKiosk bool
  | CanvasMounted live_camera orbit_controls
  | CanvasRemoved
  | ModelLoaded scene_settings

fun handler :: "event \<Rightarrow> viewer \<Rightarrow> viewer" where
  "handler (OrbitChange pos rot tgt) s =
     dispatchChange
       (s\<lparr>cameraRef := map_option (\<lambda>camera. camera\<lparr>cam_pos := pos, cam_rot := rot\<rparr>) (cameraRef s),
          controlsRef := map_option (\<lambda>controls. controls\<lparr>ctl_target := tgt\<rparr>) (controlsRef s)\<rparr>)"
| "handler (PositionEdit v) s = handlePositionChange v s"
| "handler (RotationEdit v) s = handleCameraRotation v s"
| "handler (TargetEdit v outcome) s = handleTargetChange v outcome s"
| "handler ToggleOrbit s = toggleOrbitControls s"
| "handler (ResetCamera r) s = resetCameraToViewTarget r s"
| "handler (SetKiosk b) s = s\<lparr>kiosk := b\<rparr>"
| "handler (CanvasMounted camera controls) s = s\<lparr>cameraRef := Some camera, controlsRef := Some controls\<rparr>"
| "handler CanvasRemoved s = s\<lparr>cameraRef := None, controlsRef := None\<rparr>"
| "handler (ModelLoaded settings) s = handleModelLoad settings s"

fun refsChange :: "event \<Rightarrow> bool" where
  "refsChange (CanvasMounted camera controls) = True"
| "refsChange CanvasRemoved = True"
| "refsChange e = False"

text \<open>
  One update cycle: the handler of the event runs, React renders, and each effect of
  which a dependency has changed runs, in the order of the source.
\<close>

definition step :: "event \<Rightarrow> viewer \<Rightarrow> viewer" where
  "step e s =
     (let s1 = handler e s;
          s2 = (if refsChange e \<or> orbitControlsEnabled s1 \<noteq> orbitControlsEnabled s \<or> kiosk s1 \<noteq> kiosk s
                then orbitControlsEffect s1 else s1)
      in if refsChange e then initCameraEffect s2 else s2)"

fun run :: "event list \<Rightarrow> viewer \<Rightarrow> viewer" where
  "run [] s = s"
| "run (e # es) s = run es (step e s)"

fun isManualEdit :: "event \<Rightarrow> bool" where
  "isManualEdit (PositionEdit v) = True"
| "isManualEdit (RotationEdit v) = True"
| "isManualEdit (TargetEdit v outcome) = True"
| "isManualEdit e = False"

fun isOrbitChange :: "event \<Rightarrow> bool" where
  "isOrbitChange (OrbitChange pos rot tgt) = True"
| "isOrbitChange e = False"

fun restoresOrbit :: "event \<Rightarrow> bool" where
  "restoresOrbit ToggleOrbit = True"
| "restoresOrbit (ResetCamera r) = True"
| "restoresOrbit e = False"

text \<open>A camera and controls as the canvas creates them, for the examples.\<close>

definition camera0 :: live_camera where
  "camera0 = \<lparr> cam_pos = (- 35 / 10, 3, 35 / 10), cam_rot = (0, 0, 0) \<rparr>"

definition controls0 :: orbit_controls where
  "controls0 =
     \<lparr> ctl_target = (0, 0, 0), ctl_enabled = True, enablePan = True, enableZoom = True,
       enableRotate = True \<rparr>"

text \<open>
  What holds of the scene whenever the orbit controls are switched off: no listener
  is registered, and the controls, if there are any, have every switch off.
\<close>

definition manualAuthority :: "viewer \<Rightarrow> bool" where
  "manualAuthority s =
     (changeListener s = None \<and>
      (case controlsRef s of
         None \<Rightarrow> True
       | Some controls \<Rightarrow>
           \<not> enablePan controls \<and> \<not> enableZoom controls \<and> \<not> enableRotate controls \<and>
           \<not> ctl_enabled controls))"

section \<open>Properties of the framing\<close>

lemma tan25_pos: "0 < tan ((fov * pi) / 360)"
proof -
  have "0 < (fov * pi) / 360" by (simp add: fov_def)
  moreover have "(fov * pi) / 360 < pi / 2" by (simp add: fov_def)
  ultimately show ?thesis by (rule tan_gt_zero)
qed

lemma quot_aux:
  fixes r :: real
  assumes "r * r = 3" "1 < r"
  shows "(1 + 1 / r) / (1 - 1 / r) = 2 + r"
proof -
  have nz: "r \<noteq> 0" "r - 1 \<noteq> 0" using assms by simp_all
  have "(1 + 1 / r) / (1 - 1 / r) = (r + 1) / (r - 1)"
    using nz by (simp add: field_simps)
  also have "\<dots> = 2 + r"
  proof -
    have "(2 + r) * (r - 1) = r + 1" using assms(1) by (simp add: algebra_simps)
    then show ?thesis using nz by (simp add: field_simps)
  qed
  finally show ?thesis .
qed

lemma tan75: "tan (5 * pi / 12) = 2 + sqrt 3"
proof -
  have e: "5 * pi / 12 = pi / 4 + pi / 6" by simp
  have c1: "cos (pi / 4) \<noteq> 0" by (simp add: cos_45)
  have c2: "cos (pi / 6) \<noteq> 0" by (simp add: cos_30)
  have "0 < cos (pi / 4 + pi / 6)" by (rule cos_gt_zero_pi) simp_all
  then have c3: "cos (pi / 4 + pi / 6) \<noteq> 0" by simp
  have "tan (pi / 4 + pi / 6) = (tan (pi / 4) + tan (pi / 6)) / (1 - tan (pi / 4) * tan (pi / 6))"
    by (rule tan_add [OF c1 c2 c3])
  also have "\<dots> = (1 + 1 / sqrt 3) / (1 - 1 / sqrt 3)" by (simp add: tan_30 tan_45)
  also have "\<dots> = 2 + sqrt 3"
    by (rule quot_aux) simp_all
  finally show ?thesis by (simp only: e)
qed

lemma triple_alg:
  fixes t :: real
  assumes a: "1 - t * t \<noteq> 0" and b: "1 - 3 * (t * t) \<noteq> 0"
  shows "(t + 2 * t / (1 - t * t)) / (1 - t * (2 * t / (1 - t * t))) = (3 * t - t * t * t) / (1 - 3 * (t * t))"
proof -
  define d where "d = 1 - t * t"
  have d: "d \<noteq> 0" using a by (simp add: d_def)
  have n: "t + 2 * t / d = (3 * t - t * t * t) / d"
  proof -
    have "t + 2 * t / d = (t * d + 2 * t) / d" using d by (simp add: add_divide_distrib)
    also have "t * d + 2 * t = 3 * t - t * t * t" by (simp add: d_def algebra_simps)
    finally show ?thesis .
  qed
  have m: "1 - t * (2 * t / d) = (1 - 3 * (t * t)) / d"
  proof -
    have "1 - t * (2 * t / d) = (d - t * (2 * t)) / d" using d by (simp add: diff_divide_distrib)
    also have "d - t * (2 * t) = 1 - 3 * (t * t)" by (simp add: d_def algebra_simps)
    finally show ?thesis .
  qed
  have "(t + 2 * t / d) / (1 - t * (2 * t / d)) = ((3 * t - t * t * t) / d) / ((1 - 3 * (t * t)) / d)"
    by (simp only: n m)
  also have "\<dots> = (3 * t - t * t * t) / (1 - 3 * (t * t))"
    using d by simp
  finally show ?thesis by (simp only: d_def)
qed

lemma tan_triple:
  fixes x :: real
  assumes "0 < x" "x < pi / 6"
  shows "tan (3 * x) * (1 - 3 * (tan x * tan x)) = 3 * tan x - tan x * tan x * tan x"
    and "0 < tan x" and "tan x < 1 / sqrt 3"
proof -
  have c1: "cos x \<noteq> 0" using assms cos_gt_zero_pi [of x] by simp
  have c2: "cos (2 * x) \<noteq> 0" using assms cos_gt_zero_pi [of "2 * x"] by simp
  have c3: "cos (x + 2 * x) \<noteq> 0" using assms cos_gt_zero_pi [of "x + 2 * x"] by simp
  have t2: "tan (2 * x) = (2 * tan x) / (1 - tan x * tan x)"
    using tan_double [OF c1 c2] by (simp only: power2_eq_square)
  have "tan x < tan (pi / 6)" using assms by (intro tan_monotone) simp_all
  then show lt: "tan x < 1 / sqrt 3" by (simp add: tan_30)
  show pos: "0 < tan x" using assms by (intro tan_gt_zero) simp_all
  have "tan x * tan x < (1 / sqrt 3) * (1 / sqrt 3)"
    using lt pos by (intro mult_strict_mono) simp_all
  then have sq: "tan x * tan x < 1 / 3" by simp
  then have d1: "1 - tan x * tan x \<noteq> 0" by simp
  have d3: "1 - 3 * (tan x * tan x) \<noteq> 0" using sq by simp
  have t3: "tan (x + 2 * x) = (tan x + tan (2 * x)) / (1 - tan x * tan (2 * x))"
    by (rule tan_add [OF c1 c2 c3])
  have e: "x + 2 * x = 3 * x" by simp
  have "tan (3 * x) = (3 * tan x - tan x * tan x * tan x) / (1 - 3 * (tan x * tan x))"
    using t3 triple_alg [OF d1 d3] by (simp only: t2 e)
  then show "tan (3 * x) * (1 - 3 * (tan x * tan x)) = 3 * tan x - tan x * tan x * tan x"
    using d3 by simp
qed

lemma cubic_mono:
  fixes s u :: real
  assumes "0 \<le> s" "s \<le> u" "u \<le> 1"
  shows "3 * s - s * s * s \<le> 3 * u - u * u * u"
proof -
  have su: "s * u \<le> 1 * 1" using assms by (intro mult_mono) simp_all
  have ss: "s * s \<le> 1 * 1" using assms by (intro mult_mono) simp_all
  have uu: "u * u \<le> 1 * 1" using assms by (intro mult_mono) simp_all
  have "0 \<le> (u - s) * (3 - (u * u + u * s + s * s))"
    using assms su ss uu by (intro mult_nonneg_nonneg) (simp_all add: mult.commute)
  also have "\<dots> = (3 * u - u * u * u) - (3 * s - s * s * s)"
    by (simp add: algebra_simps)
  finally show ?thesis by simp
qed

lemma sqrt3_bounds: "1732 / 1000 < sqrt 3" "sqrt 3 < 17321 / 10000"
proof -
  show "1732 / 1000 < sqrt 3" by (rule real_less_rsqrt) (simp add: power2_eq_square)
  show "sqrt 3 < 17321 / 10000" by (rule real_less_lsqrt) (simp_all add: power2_eq_square)
qed

lemma sqrt6_bounds: "24494 / 10000 < sqrt 6" "sqrt 6 < 24495 / 10000"
proof -
  show "24494 / 10000 < sqrt 6" by (rule real_less_rsqrt) (simp add: power2_eq_square)
  show "sqrt 6 < 24495 / 10000" by (rule real_less_lsqrt) (simp_all add: power2_eq_square)
qed

lemma tan25_bounds: "4662 / 10000 < tan (5 * pi / 36)" "tan (5 * pi / 36) < 46635 / 100000"
proof -
  define t where "t = tan (5 * pi / 36)"
  define c where "c = 2 + sqrt 3"
  have x: "0 < 5 * pi / 36" "5 * pi / 36 < pi / 6" by simp_all
  have "3 * (5 * pi / 36) = 5 * pi / 12" by simp
  then have "tan (3 * (5 * pi / 36)) = c" by (simp only: tan75 c_def)
  with tan_triple [OF x]
  have eq: "c * (1 - 3 * (t * t)) = 3 * t - t * t * t" and pos: "0 < t" and lt: "t < 1 / sqrt 3"
    by (simp_all only: t_def)
  have "1 / sqrt 3 < 1" by simp
  with lt have t1: "t \<le> 1" by linarith
  have c: "3732 / 1000 < c" "c < 37321 / 10000" using sqrt3_bounds by (simp_all add: c_def)
  show "4662 / 10000 < tan (5 * pi / 36)"
  proof (rule ccontr)
    assume "\<not> 4662 / 10000 < tan (5 * pi / 36)"
    then have le: "t \<le> 4662 / 10000" by (simp add: t_def)
    have "3 * t - t * t * t \<le> 3 * (4662 / 10000) - (4662 / 10000) * (4662 / 10000) * (4662 / 10000 :: real)"
      using pos le by (intro cubic_mono) simp_all
    then have r: "3 * t - t * t * t \<le> 1297275 / 1000000" by simp
    have "t * t \<le> (4662 / 10000) * (4662 / 10000)" using pos le by (intro mult_mono) simp_all
    then have "34797 / 100000 \<le> 1 - 3 * (t * t)" by simp
    then have "(3732 / 1000) * (34797 / 100000) \<le> c * (1 - 3 * (t * t))"
      using c by (intro mult_mono) simp_all
    then have "1298 / 1000 \<le> c * (1 - 3 * (t * t))" by simp
    with r eq show False by simp
  qed
  show "tan (5 * pi / 36) < 46635 / 100000"
  proof (rule ccontr)
    assume "\<not> tan (5 * pi / 36) < 46635 / 100000"
    then have ge: "46635 / 100000 \<le> t" by (simp add: t_def)
    have "3 * (46635 / 100000) - (46635 / 100000) * (46635 / 100000) * (46635 / 100000 :: real) \<le> 3 * t - t * t * t"
      using t1 ge by (intro cubic_mono) simp_all
    then have r: "12976 / 10000 \<le> 3 * t - t * t * t" by simp
    have "(46635 / 100000) * (46635 / 100000) \<le> t * t" using ge by (intro mult_mono) simp_all
    then have u: "1 - 3 * (t * t) \<le> 34756 / 100000" by simp
    have "t * t < (1 / sqrt 3) * (1 / sqrt 3)" using lt pos by (intro mult_strict_mono) simp_all
    then have nn: "0 \<le> 1 - 3 * (t * t)" by simp
    have "c * (1 - 3 * (t * t)) \<le> (37321 / 10000) * (34756 / 100000)"
      using c u nn by (intro mult_mono) simp_all
    then have "c * (1 - 3 * (t * t)) \<le> 12972 / 10000" by simp
    with r eq show False by simp
  qed
qed

lemma angle_args:
  "degToRad 50 / 2 = (fov * pi) / 360"
  "degToRad 30 = verticalAngle"
  "degToRad 135 = horizontalAngle"
  by (simp_all add: degToRad_def fov_def verticalAngle_def horizontalAngle_def)

lemma cos_horizontal: "cos horizontalAngle = - (sqrt 2 / 2)"
proof -
  have "horizontalAngle = pi - pi / 4" by (simp add: horizontalAngle_def)
  then have "cos horizontalAngle = cos (pi - pi / 4)" by (simp only:)
  also have "\<dots> = - cos (pi / 4)" by (rule cos_pi_minus)
  finally show ?thesis by (simp only: cos_45)
qed

lemma sin_horizontal: "sin horizontalAngle = sqrt 2 / 2"
proof -
  have "horizontalAngle = pi - pi / 4" by (simp add: horizontalAngle_def)
  then have "sin horizontalAngle = sin (pi - pi / 4)" by (simp only:)
  also have "\<dots> = sin (pi / 4)" by (rule sin_pi_minus)
  finally show ?thesis by (simp only: sin_45)
qed

lemma framed_position:
  "set_position (set_camera (framedSettings g)) =
     [distance g * cos verticalAngle * cos horizontalAngle,
      distance g * sin verticalAngle,
      distance g * cos verticalAngle * sin horizontalAngle]"
  by (simp add: framedSettings_def radius_def height_def)

lemma distance_formula:
  "distance g = 12 / 10 * maxDim g / (2 * tan (degToRad 50 / 2))"
  by (simp only: angle_args distance_def cameraDistance_def) simp

lemma maxDim_half_extents:
  "box_size g = (2 * sx, 2 * sy, 2 * sz) \<Longrightarrow> maxDim g = 2 * max (max sx sy) sz"
  by (simp add: maxDim_def vx_def vy_def vz_def max_def)

lemma unit_distance: "maxDim g = 2 \<Longrightarrow> distance g = (12 / 10) / tan (5 * pi / 36)"
proof -
  assume m: "maxDim g = 2"
  have a: "(fov * pi) / 360 = 5 * pi / 36" by (simp add: fov_def)
  show ?thesis by (simp only: distance_def cameraDistance_def a m) simp
qed

lemma unit_height:
  assumes m: "maxDim g = 2"
  shows "12865 / 10000 \<le> distance g * sin verticalAngle"
    and "distance g * sin verticalAngle \<le> 12875 / 10000"
proof -
  define T where "T = tan (5 * pi / 36)"
  have b: "4662 / 10000 < T" "T < 46635 / 100000" using tan25_bounds by (simp_all only: T_def)
  then have pos: "0 < T" by simp
  have e: "distance g * sin verticalAngle = (6 / 10) / T"
    by (simp add: unit_distance [OF m] verticalAngle_def sin_30 T_def)
  have "12865 / 10000 * T \<le> 6 / 10" using b by simp
  then have "12865 / 10000 \<le> (6 / 10) / T" using pos by (simp add: pos_le_divide_eq)
  then show "12865 / 10000 \<le> distance g * sin verticalAngle" by (simp only: e)
  have "6 / 10 \<le> 12875 / 10000 * T" using b by simp
  then have "(6 / 10) / T \<le> 12875 / 10000" using pos by (simp add: pos_divide_le_eq)
  then show "distance g * sin verticalAngle \<le> 12875 / 10000" by (simp only: e)
qed

lemma unit_radius:
  assumes m: "maxDim g = 2"
  shows "15755 / 10000 \<le> distance g * cos verticalAngle * (sqrt 2 / 2)"
    and "distance g * cos verticalAngle * (sqrt 2 / 2) \<le> 15765 / 10000"
proof -
  define T where "T = tan (5 * pi / 36)"
  have b: "4662 / 10000 < T" "T < 46635 / 100000" using tan25_bounds by (simp_all only: T_def)
  then have pos: "0 < T" by simp
  have s6: "sqrt 3 * sqrt 2 = sqrt 6" by (simp add: real_sqrt_mult [symmetric])
  have "distance g * cos verticalAngle * (sqrt 2 / 2) = (3 / 10 * (sqrt 3 * sqrt 2)) / T"
    by (simp add: unit_distance [OF m] verticalAngle_def cos_30 T_def)
  then have e: "distance g * cos verticalAngle * (sqrt 2 / 2) = (3 / 10 * sqrt 6) / T"
    by (simp only: s6)
  have "15755 / 10000 * T \<le> 3 / 10 * sqrt 6" using b sqrt6_bounds by simp
  then have "15755 / 10000 \<le> (3 / 10 * sqrt 6) / T" using pos by (simp add: pos_le_divide_eq)
  then show "15755 / 10000 \<le> distance g * cos verticalAngle * (sqrt 2 / 2)" by (simp only: e)
  have "3 / 10 * sqrt 6 \<le> 15765 / 10000 * T" using b sqrt6_bounds by simp
  then have "(3 / 10 * sqrt 6) / T \<le> 15765 / 10000" using pos by (simp add: pos_divide_le_eq)
  then show "distance g * cos verticalAngle * (sqrt 2 / 2) \<le> 15765 / 10000" by (simp only: e)
qed

lemma framed_position_sqrt:
  "set_position (set_camera (framedSettings g)) =
     [- (distance g * cos verticalAngle * (sqrt 2 / 2)),
      distance g * sin verticalAngle,
      distance g * cos verticalAngle * (sqrt 2 / 2)]"
  by (simp only: framed_position cos_horizontal sin_horizontal) simp

lemma unit_position_approx:
  assumes m: "maxDim g = 2"
  shows "\<exists>x y z. set_position (set_camera (framedSettings g)) = [x, y, z] \<and>
           \<bar>x - (- 1576 / 1000)\<bar> \<le> 5 / 10000 \<and>
           \<bar>y - 1287 / 1000\<bar> \<le> 5 / 10000 \<and>
           \<bar>z - 1576 / 1000\<bar> \<le> 5 / 10000"
proof -
  define r where "r = distance g * cos verticalAngle * (sqrt 2 / 2)"
  define h where "h = distance g * sin verticalAngle"
  have p: "set_position (set_camera (framedSettings g)) = [- r, h, r]"
    by (simp only: framed_position_sqrt r_def h_def)
  have rb: "15755 / 10000 \<le> r" "r \<le> 15765 / 10000"
    using unit_radius [OF m] by (simp_all only: r_def)
  have hb: "12865 / 10000 \<le> h" "h \<le> 12875 / 10000"
    using unit_height [OF m] by (simp_all only: h_def)
  have "\<bar>- r - (- 1576 / 1000)\<bar> \<le> 5 / 10000" using rb by linarith
  moreover have "\<bar>h - 1287 / 1000\<bar> \<le> 5 / 10000" using hb by linarith
  moreover have "\<bar>r - 1576 / 1000\<bar> \<le> 5 / 10000" using rb by linarith
  ultimately show ?thesis using p by blast
qed

lemma unitCube_facts:
  "cameras unitCube = []" "box_size unitCube = (2 * 1, 2 * 1, 2 * 1)" "maxDim unitCube = 2"
  by (simp_all add: unitCube_def maxDim_def vx_def vy_def vz_def)

lemma framed_when_no_camera: "cameras g = [] \<Longrightarrow> computeSceneSettings g = framedSettings g"
  by (simp add: computeSceneSettings_def)

text \<open>
  C2, as stated: for the unit cube the claim gives the camera position as approximately
  \<open>(-1.573, 1.287, 1.573)\<close>. The x coordinate the code computes is not within
  \<open>0.002\<close> of \<open>-1.573\<close>: it lies below \<open>-1.5755\<close>.
\<close>

theorem framing_unit_cube_counterexample:
  "\<not> \<bar>set_position (set_camera (computeSceneSettings unitCube)) ! 0 - (- 1573 / 1000)\<bar> \<le> 2 / 1000"
proof -
  have "15755 / 10000 \<le> distance unitCube * cos verticalAngle * (sqrt 2 / 2)"
    by (rule unit_radius(1)) (rule unitCube_facts(3))
  moreover have "set_position (set_camera (computeSceneSettings unitCube)) ! 0 =
      - (distance unitCube * cos verticalAngle * (sqrt 2 / 2))"
    by (simp only: framed_when_no_camera [OF unitCube_facts(1)] framed_position_sqrt) simp
  ultimately show ?thesis by linarith
qed

text \<open>
  C2, amended: for every asset without an authored camera whose bounding box has the
  full extents \<open>(2sx, 2sy, 2sz)\<close>, the camera settings have the position
  \<open>(d cos 30\<degree> cos 135\<degree>, d sin 30\<degree>, d cos 30\<degree> sin 135\<degree>)\<close> with
  \<open>d = 1.2 maxDim / (2 tan (50\<degree> / 2))\<close> and \<open>maxDim\<close> the largest full extent,
  the target \<open>(0, 0, 0)\<close> and the field of view 50; for the unit cube the position
  is \<open>(-1.576, 1.287, 1.576)\<close> to three decimals.
\<close>

theorem framing_pose:
  assumes "cameras g = []" and "box_size g = (2 * sx, 2 * sy, 2 * sz)"
  shows "(let maxD = 2 * max (max sx sy) sz;
              d = 12 / 10 * maxD / (2 * tan (degToRad 50 / 2))
          in set_position (set_camera (computeSceneSettings g)) =
               [d * cos (degToRad 30) * cos (degToRad 135),
                d * sin (degToRad 30),
                d * cos (degToRad 30) * sin (degToRad 135)] \<and>
             set_target (set_camera (computeSceneSettings g)) = [0, 0, 0] \<and>
             set_fov (set_camera (computeSceneSettings g)) = 50) \<and>
         (sx = 1 \<and> sy = 1 \<and> sz = 1 \<longrightarrow>
            (\<exists>x y z. set_position (set_camera (computeSceneSettings g)) = [x, y, z] \<and>
               \<bar>x - (- 1576 / 1000)\<bar> \<le> 5 / 10000 \<and>
               \<bar>y - 1287 / 1000\<bar> \<le> 5 / 10000 \<and>
               \<bar>z - 1576 / 1000\<bar> \<le> 5 / 10000))"
proof (intro conjI impI)
  have c: "computeSceneSettings g = framedSettings g"
    by (rule framed_when_no_camera) (rule assms(1))
  have d: "distance g = 12 / 10 * (2 * max (max sx sy) sz) / (2 * tan (degToRad 50 / 2))"
    by (simp only: distance_formula maxDim_half_extents [OF assms(2)])
  have "set_position (set_camera (framedSettings g)) =
          [distance g * cos (degToRad 30) * cos (degToRad 135),
           distance g * sin (degToRad 30),
           distance g * cos (degToRad 30) * sin (degToRad 135)]"
    by (simp only: framed_position angle_args)
  moreover have "set_target (set_camera (framedSettings g)) = [0, 0, 0]"
    by (simp add: framedSettings_def)
  moreover have "set_fov (set_camera (framedSettings g)) = 50"
    by (simp add: framedSettings_def fov_def)
  ultimately show "let maxD = 2 * max (max sx sy) sz;
              d = 12 / 10 * maxD / (2 * tan (degToRad 50 / 2))
          in set_position (set_camera (computeSceneSettings g)) =
               [d * cos (degToRad 30) * cos (degToRad 135),
                d * sin (degToRad 30),
                d * cos (degToRad 30) * sin (degToRad 135)] \<and>
             set_target (set_camera (computeSceneSettings g)) = [0, 0, 0] \<and>
             set_fov (set_camera (computeSceneSettings g)) = 50"
    by (simp only: Let_def c d [symmetric])
next
  assume u: "sx = 1 \<and> sy = 1 \<and> sz = 1"
  have c: "computeSceneSettings g = framedSettings g"
    by (rule framed_when_no_camera) (rule assms(1))
  have "maxDim g = 2" using maxDim_half_extents [OF assms(2)] u by simp
  then show "\<exists>x y z. set_position (set_camera (computeSceneSettings g)) = [x, y, z] \<and>
               \<bar>x - (- 1576 / 1000)\<bar> \<le> 5 / 10000 \<and>
               \<bar>y - 1287 / 1000\<bar> \<le> 5 / 10000 \<and>
               \<bar>z - 1576 / 1000\<bar> \<le> 5 / 10000"
    by (simp only: c) (rule unit_position_approx)
qed

theorem framing_pose_witness:
  "cameras unitCube = [] \<and> box_size unitCube = (2 * 1, 2 * 1, 2 * 1) \<and>
   (\<exists>x y z. set_position (set_camera (computeSceneSettings unitCube)) = [x, y, z] \<and>
      \<bar>x - (- 1576 / 1000)\<bar> \<le> 5 / 10000 \<and>
      \<bar>y - 1287 / 1000\<bar> \<le> 5 / 10000 \<and>
      \<bar>z - 1576 / 1000\<bar> \<le> 5 / 10000)"
  using framing_pose [OF unitCube_facts(1) unitCube_facts(2)] unitCube_facts(1) unitCube_facts(2)
  by blast

subsection \<open>A bounding box without extent\<close>

lemma tan25_nonzero: "2 * tan ((fov * pi) / 360) \<noteq> 0"
  using tan25_pos by simp

lemma degenerate_distance: "maxDim g = 0 \<Longrightarrow> distance g = 0"
  by (simp add: distance_def cameraDistance_def)

text \<open>
  C3: a bounding box of size \<open>(0, 0, 0)\<close> has \<open>maxDim = 0\<close>. The framing divides it by
  a number that is not zero and multiplies by 1.2: the distance is 0, and the camera is put
  on its target at the origin. No fallback applies, while the reset of the camera replaces
  a distance of 0 by 10.
\<close>

theorem degenerate_distance_zero:
  "maxDim pointScene = 0 \<and> 2 * tan ((fov * pi) / 360) \<noteq> 0 \<and>
   distance pointScene = 0 \<and>
   set_position (set_camera (computeSceneSettings pointScene)) = [0, 0, 0] \<and>
   set_target (set_camera (computeSceneSettings pointScene)) = [0, 0, 0] \<and>
   resetDistance 0 = 10"
proof -
  have m: "maxDim pointScene = 0"
    by (simp add: maxDim_def pointScene_def vx_def vy_def vz_def)
  have c: "computeSceneSettings pointScene = framedSettings pointScene"
    by (rule framed_when_no_camera) (simp add: pointScene_def)
  have p: "set_position (set_camera (framedSettings pointScene)) = [0, 0, 0]"
    by (simp add: framed_position degenerate_distance [OF m])
  have t: "set_target (set_camera (framedSettings pointScene)) = [0, 0, 0]"
    by (simp add: framedSettings_def)
  show ?thesis
    using m tan25_nonzero degenerate_distance [OF m] p t
    by (simp add: c resetDistance_def)
qed

section \<open>Properties of the authored-camera branch\<close>





section \<open>Properties of the animation playback\<close>

lemma currentAction_resolved:
  "currentAnimation s = Some name \<Longrightarrow> name \<noteq> [] \<Longrightarrow> currentAction s = actions s name"
  by (simp add: currentAction_def)

lemma actions_setAction:
  "rootAttached s \<Longrightarrow> actions (setAction name a s) = (actions s)(name \<mapsto> a)"
  by (simp add: actions_def setAction_def)

lemma actions_attached: "actions s name = Some a \<Longrightarrow> rootAttached s"
  by (simp add: actions_def split: if_splits)

lemma setAction_frame:
  "currentAnimation (setAction name a s) = currentAnimation s"
  "isPlaying (setAction name a s) = isPlaying s"
  "progress (setAction name a s) = progress s"
  "rootAttached (setAction name a s) = rootAttached s"
  by (simp_all add: setAction_def)

lemma handleProgress_resolved:
  assumes "currentAnimation s = Some name" and "name \<noteq> []" and "actions s name = Some a"
  shows "handleProgress p s =
           setAction name
                (if paused a then (play (a\<lparr>time := clip_duration (getClip a) * p\<rparr>))\<lparr>paused := True\<rparr>
                 else a\<lparr>time := clip_duration (getClip a) * p\<rparr>) s"
  using assms by (simp add: handleProgress_def Let_def)

lemma handleProgress_frame:
  "currentAnimation (handleProgress p s) = currentAnimation s"
  "isPlaying (handleProgress p s) = isPlaying s"
  by (simp_all add: handleProgress_def Let_def setAction_frame split: option.split)

text \<open>
  C6: with an active clip whose action resolves and a progress in \<open>[0, 1]\<close>, the scrub
  sets the time of the action to the progress times the duration of its clip and leaves
  \<^verbatim>\<open>paused\<close> as it was: an action that was paused is paused afterwards. The status
  \<open>isPlaying\<close> and the selected clip do not change, and \<^verbatim>\<open>handleProgressChange\<close>
  records the progress.
\<close>

theorem scrub_sets_time:
  assumes "currentAnimation s = Some name" and "name \<noteq> []" and "actions s name = Some a"
    and "0 \<le> p" and "p \<le> 1"
  shows "\<exists>a'. currentAction (handleProgress p s) = Some a' \<and>
           time a' = p * clip_duration (getClip a) \<and>
           getClip a' = getClip a \<and>
           paused a' = paused a \<and>
           (paused a \<longrightarrow> paused a') \<and>
           isPlaying (handleProgress p s) = isPlaying s \<and>
           currentAnimation (handleProgress p s) = currentAnimation s \<and>
           (modelRef s \<longrightarrow>
              currentAction (handleProgressChange p s) = Some a' \<and>
              isPlaying (handleProgressChange p s) = isPlaying s \<and>
              progress (handleProgressChange p s) = p)"
proof -
  define a' where
    "a' = (if paused a then (play (a\<lparr>time := clip_duration (getClip a) * p\<rparr>))\<lparr>paused := True\<rparr>
           else a\<lparr>time := clip_duration (getClip a) * p\<rparr>)"
  have att: "rootAttached s" by (rule actions_attached) (rule assms(3))
  have hp: "handleProgress p s = setAction name a' s"
    using handleProgress_resolved [OF assms(1-3)] by (simp only: a'_def)
  have cur: "currentAction (handleProgress p s) = Some a'"
    using assms(1,2) att by (simp add: hp currentAction_def actions_setAction setAction_frame)
  have t: "time a' = p * clip_duration (getClip a)"
    by (simp add: a'_def play_def)
  have c: "getClip a' = getClip a"
    by (simp add: a'_def play_def)
  have pa: "paused a' = paused a"
    by (simp add: a'_def play_def)
  have s1: "currentAnimation (s\<lparr>progress := p\<rparr>) = Some name" "actions (s\<lparr>progress := p\<rparr>) name = Some a"
    "rootAttached (s\<lparr>progress := p\<rparr>)"
    using assms(1,3) att by (simp_all add: actions_def)
  have hp1: "handleProgress p (s\<lparr>progress := p\<rparr>) = setAction name a' (s\<lparr>progress := p\<rparr>)"
    using handleProgress_resolved [OF s1(1) assms(2) s1(2)] by (simp only: a'_def)
  have chg: "modelRef s \<longrightarrow>
              currentAction (handleProgressChange p s) = Some a' \<and>
              isPlaying (handleProgressChange p s) = isPlaying s \<and>
              progress (handleProgressChange p s) = p"
    using assms(1,2) s1(3)
    by (simp add: handleProgressChange_def Let_def hp1 currentAction_def actions_setAction
        setAction_frame)
  show ?thesis
    using cur t c pa chg handleProgress_frame [of p s] by blast
qed

text \<open>
  A player on a paused clip of 4 seconds, for the example of the scrub: the model is
  mounted, which starts nothing as the root is not attached yet, and Pause is clicked.
\<close>

lemma paused_walk:
  "currentAnimation (setIsPlaying ''paused'' (mountModel walkAsset True initialPlayer)) = Some ''Walk''"
  "actions (setIsPlaying ''paused'' (mountModel walkAsset True initialPlayer)) ''Walk'' =
     Some \<lparr> getClip = walk, time = 0, paused = True, enabled = True, scheduled = False,
            loop = LoopRepeat \<rparr>"
  "isPlaying (setIsPlaying ''paused'' (mountModel walkAsset True initialPlayer)) = JStr ''paused''"
  by (simp_all add: setIsPlaying_def rerender_def mountModel_def loadAsset_def modelUrlEffect_def loadEffect_def autoPlayEffect_def
      animationStateEffect_def actions_def setAction_def initialPlayer_def walkAsset_def walk_def useAnimations_def
      newAction_def js_or_def play_def reset_def setLoop_def Let_def)

theorem scrub_sets_time_witness:
  "\<exists>a'. currentAction (handleProgress (1 / 2)
            (setIsPlaying ''paused'' (mountModel walkAsset True initialPlayer))) = Some a' \<and>
         time a' = 2 \<and> paused a' \<and>
         isPlaying (handleProgress (1 / 2)
            (setIsPlaying ''paused'' (mountModel walkAsset True initialPlayer))) = JStr ''paused''"
proof -
  have n: "''Walk'' \<noteq> []" by simp
  have p: "(0::real) \<le> 1 / 2" "(1 / 2 :: real) \<le> 1" by simp_all
  from scrub_sets_time [OF paused_walk(1) n paused_walk(2) p]
  show ?thesis by (auto simp add: paused_walk(3) walk_def)
qed

text \<open>
  C10: \<^verbatim>\<open>getDuration\<close> never raises. It returns 0 when no clip is selected (the
  selection is \<^verbatim>\<open>null\<close> or the empty string) and when the selected clip has no action,
  and the duration of the clip of the action otherwise.
\<close>

theorem getDuration_total:
  "(\<exists>d. getDuration s = Inr d) \<and>
   (currentAnimation s = None \<or> currentAnimation s = Some [] \<longrightarrow> getDuration s = Inr 0) \<and>
   (\<forall>name. currentAnimation s = Some name \<and> actions s name = None \<longrightarrow> getDuration s = Inr 0) \<and>
   (\<forall>name a. currentAnimation s = Some name \<and> name \<noteq> [] \<and> actions s name = Some a \<longrightarrow>
      getDuration s = Inr (clip_duration (getClip a)))"
  by (auto simp add: getDuration_def clipDurationOf_def split: option.split)

theorem getDuration_total_witness:
  "getDuration initialPlayer = Inr 0 \<and>
   getDuration (selectAnimation ''Idle'' (mountModel walkAsset True initialPlayer)) = Inr 0 \<and>
   getDuration (setIsPlaying ''paused'' (mountModel walkAsset True initialPlayer)) = Inr 4"
proof -
  have a: "currentAnimation initialPlayer = None" by (simp add: initialPlayer_def)
  have b: "currentAnimation (selectAnimation ''Idle'' (mountModel walkAsset True initialPlayer)) = Some ''Idle'' \<and>
           actions (selectAnimation ''Idle'' (mountModel walkAsset True initialPlayer)) ''Idle'' = None"
    by (simp add: selectAnimation_def rerender_def mountModel_def loadAsset_def modelUrlEffect_def loadEffect_def autoPlayEffect_def
      animationStateEffect_def actions_def setAction_def initialPlayer_def walkAsset_def walk_def useAnimations_def
      newAction_def js_or_def play_def reset_def setLoop_def Let_def)
  have n: "''Walk'' \<noteq> []" by simp
  from getDuration_total [of initialPlayer] a
  have 1: "getDuration initialPlayer = Inr 0" by blast
  from getDuration_total [of "selectAnimation ''Idle'' (mountModel walkAsset True initialPlayer)"] b
  have 2: "getDuration (selectAnimation ''Idle'' (mountModel walkAsset True initialPlayer)) = Inr 0"
    by blast
  from getDuration_total [of "setIsPlaying ''paused'' (mountModel walkAsset True initialPlayer)"]
    paused_walk(1,2) n
  have "getDuration (setIsPlaying ''paused'' (mountModel walkAsset True initialPlayer)) =
          Inr (clip_duration (getClip \<lparr> getClip = walk, time = 0, paused = True, enabled = True,
                 scheduled = False, loop = LoopRepeat \<rparr>))"
    by blast
  then have 3: "getDuration (setIsPlaying ''paused'' (mountModel walkAsset True initialPlayer)) = Inr 4"
    by (simp add: walk_def)
  from 1 2 3 show ?thesis by blast
qed

subsection \<open>Switching the clip\<close>

lemma walkRun_playing:
  "currentAnimation (setIsPlaying ''playing'' (mountModel walkRunAsset True initialPlayer)) = Some ''Walk''"
  "isPlaying (setIsPlaying ''playing'' (mountModel walkRunAsset True initialPlayer)) = JStr ''playing''"
  "isInitialized (setIsPlaying ''playing'' (mountModel walkRunAsset True initialPlayer))"
  "actions (setIsPlaying ''playing'' (mountModel walkRunAsset True initialPlayer)) ''Walk'' =
     Some \<lparr> getClip = walk, time = 0, paused = False, enabled = True, scheduled = True,
            loop = LoopRepeat \<rparr>"
  "actions (setIsPlaying ''playing'' (mountModel walkRunAsset True initialPlayer)) ''Run'' =
     Some (newAction runClip)"
  by (simp_all add: setIsPlaying_def rerender_def mountModel_def loadAsset_def modelUrlEffect_def loadEffect_def autoPlayEffect_def
      animationStateEffect_def actions_def setAction_def initialPlayer_def walkRunAsset_def walk_def runClip_def
      useAnimations_def newAction_def js_or_def play_def reset_def setLoop_def Let_def)

text \<open>
  C5: the asset has the clips Walk and Run. After the mount and a click on Play, Walk
  is the selected clip, its status is \<^verbatim>\<open>'playing'\<close> and its action is running. When
  the select switches to Run, the action of Run is started and the action of Walk is
  left as it is: both are running. When the select switches to no animation, the status
  becomes \<^verbatim>\<open>'stopped'\<close> and the action of Walk is still running.
\<close>

theorem clip_switch_keeps_previous_running:
  "currentAnimation (setIsPlaying ''playing'' (mountModel walkRunAsset True initialPlayer)) = Some ''Walk'' \<and>
   isPlaying (setIsPlaying ''playing'' (mountModel walkRunAsset True initialPlayer)) = JStr ''playing'' \<and>
   (\<exists>a. actions (setIsPlaying ''playing'' (mountModel walkRunAsset True initialPlayer)) ''Walk'' = Some a \<and>
        isRunning a) \<and>
   currentAnimation (selectAnimation ''Run''
     (setIsPlaying ''playing'' (mountModel walkRunAsset True initialPlayer))) = Some ''Run'' \<and>
   isPlaying (selectAnimation ''Run''
     (setIsPlaying ''playing'' (mountModel walkRunAsset True initialPlayer))) = JStr ''playing'' \<and>
   (\<exists>a b. actions (selectAnimation ''Run''
            (setIsPlaying ''playing'' (mountModel walkRunAsset True initialPlayer))) ''Walk'' = Some a \<and>
          actions (selectAnimation ''Run''
            (setIsPlaying ''playing'' (mountModel walkRunAsset True initialPlayer))) ''Run'' = Some b \<and>
          isRunning a \<and> isRunning b) \<and>
   isPlaying (selectAnimation []
     (setIsPlaying ''playing'' (mountModel walkRunAsset True initialPlayer))) = JStr ''stopped'' \<and>
   (\<exists>a. actions (selectAnimation []
          (setIsPlaying ''playing'' (mountModel walkRunAsset True initialPlayer))) ''Walk'' = Some a \<and>
        isRunning a)"
proof -
  define s where "s = setIsPlaying ''playing'' (mountModel walkRunAsset True initialPlayer)"
  have f: "currentAnimation s = Some ''Walk''" "isPlaying s = JStr ''playing''" "isInitialized s"
    "actions s ''Walk'' = Some \<lparr> getClip = walk, time = 0, paused = False, enabled = True,
        scheduled = True, loop = LoopRepeat \<rparr>"
    "actions s ''Run'' = Some (newAction runClip)"
    using walkRun_playing by (simp_all only: s_def)
  have att: "rootAttached s" by (rule actions_attached) (rule f(4))
  have sel: "selectAnimation ''Run'' s =
      setAction ''Run'' (play ((newAction runClip)\<lparr>paused := False\<rparr>))
        (s\<lparr>currentAnimation := Some ''Run'', isPlaying := JStr ''playing''\<rparr>)"
    using f att by (simp add: selectAnimation_def rerender_def animationStateEffect_def actions_def)
  have none: "selectAnimation [] s = s\<lparr>currentAnimation := Some [], isPlaying := JStr ''stopped''\<rparr>"
    using f by (simp add: selectAnimation_def rerender_def animationStateEffect_def)
  have r1: "isRunning \<lparr> getClip = walk, time = 0, paused = False, enabled = True,
        scheduled = True, loop = LoopRepeat \<rparr>"
    by (simp add: isRunning_def)
  have r2: "isRunning (play ((newAction runClip)\<lparr>paused := False\<rparr>))"
    by (simp add: isRunning_def play_def newAction_def)
  have "currentAnimation s = Some ''Walk'' \<and>
   isPlaying s = JStr ''playing'' \<and>
   (\<exists>a. actions s ''Walk'' = Some a \<and> isRunning a) \<and>
   currentAnimation (selectAnimation ''Run'' s) = Some ''Run'' \<and>
   isPlaying (selectAnimation ''Run'' s) = JStr ''playing'' \<and>
   (\<exists>a b. actions (selectAnimation ''Run'' s) ''Walk'' = Some a \<and>
          actions (selectAnimation ''Run'' s) ''Run'' = Some b \<and>
          isRunning a \<and> isRunning b) \<and>
   isPlaying (selectAnimation [] s) = JStr ''stopped'' \<and>
   (\<exists>a. actions (selectAnimation [] s) ''Walk'' = Some a \<and> isRunning a)"
    using f r1 r2 att by (simp add: sel none actions_def setAction_def)
  then show ?thesis by (simp only: s_def)
qed

subsection \<open>Seeding the playback\<close>

text \<open>
  C9: the first asset has the clip Walk, the second the clip Run. Mounting the first
  seeds the selection with Walk and stores the boolean \<^verbatim>\<open>true\<close> as status, which is
  none of the three status strings. When the second asset replaces the first while the
  component stays mounted, nothing is seeded: the selection is still Walk, which has no
  action any more, and the action of Run has not been started. After a fresh mount the
  seeding does take place.
\<close>

theorem seeding_skipped_on_replacement:
  "currentAnimation (mountModel walkAsset True initialPlayer) = Some ''Walk'' \<and>
   isPlaying (mountModel walkAsset True initialPlayer) = JBool True \<and>
   isPlaying (mountModel walkAsset True initialPlayer) \<noteq> JStr ''playing'' \<and>
   currentAnimation (loadAsset runAsset True (mountModel walkAsset True initialPlayer)) = Some ''Walk'' \<and>
   currentAction (loadAsset runAsset True (mountModel walkAsset True initialPlayer)) = None \<and>
   actions (loadAsset runAsset True (mountModel walkAsset True initialPlayer)) ''Run'' =
     Some (newAction runClip) \<and>
   \<not> isRunning (newAction runClip) \<and>
   hasLoaded (loadAsset runAsset True (mountModel walkAsset True initialPlayer)) \<and>
   animationList (loadAsset runAsset True (mountModel walkAsset True initialPlayer)) = [''Run''] \<and>
   currentAnimation (mountModel runAsset True (mountModel walkAsset True initialPlayer)) = Some ''Run''"
  by (simp add: mountModel_def loadAsset_def modelUrlEffect_def loadEffect_def autoPlayEffect_def currentAction_def
      animationStateEffect_def actions_def setAction_def initialPlayer_def walkAsset_def runAsset_def walk_def runClip_def
      useAnimations_def newAction_def js_or_def play_def reset_def setLoop_def Let_def
      isRunning_def animationNames_def computeSceneSettings_def framedSettings_def)

section \<open>Properties of the camera authority\<close>

subsection \<open>The stored pose under each handler\<close>

lemma updateCamera_frame:
  "orbitControlsEnabled (updateCamera u s) = orbitControlsEnabled s"
  "kiosk (updateCamera u s) = kiosk s"
  "cameraRef (updateCamera u s) = cameraRef s"
  "controlsRef (updateCamera u s) = controlsRef s"
  "changeListener (updateCamera u s) = changeListener s"
  by (simp_all add: updateCamera_def Let_def)

lemma handlePositionChange_pose:
  "sceneSettings (handlePositionChange v s) = (sceneSettings s)\<lparr>position := map round2 v\<rparr>"
  by (simp add: handlePositionChange_def updateCamera_def Let_def split: option.split)

lemma handleCameraRotation_pose:
  "sceneSettings (handleCameraRotation v s) = (sceneSettings s)\<lparr>rotation := map round2 v\<rparr>"
  by (simp add: handleCameraRotation_def updateCamera_def Let_def split: option.split)

lemma handleChange_frame:
  "orbitControlsEnabled (handleChange b s) = orbitControlsEnabled s"
  "kiosk (handleChange b s) = kiosk s"
  "manualAuthority (handleChange b s) = manualAuthority s"
  by (simp_all add: handleChange_def manualAuthority_def Let_def split: option.split)

lemma dispatchChange_frame:
  "orbitControlsEnabled (dispatchChange s) = orbitControlsEnabled s"
  "kiosk (dispatchChange s) = kiosk s"
  "manualAuthority (dispatchChange s) = manualAuthority s"
  by (simp_all add: dispatchChange_def handleChange_frame split: option.split)

lemma controlsUpdate_frame:
  "orbitControlsEnabled (controlsUpdate outcome s) = orbitControlsEnabled s"
  "kiosk (controlsUpdate outcome s) = kiosk s"
  by (simp_all add: controlsUpdate_def dispatchChange_frame split: option.split prod.split)

lemma controlsUpdate_authority:
  "manualAuthority (controlsUpdate outcome s) = manualAuthority s"
proof (cases outcome)
  case None
  then show ?thesis by (simp add: controlsUpdate_def)
next
  case (Some pr)
  obtain pos rot where pr: "pr = (pos, rot)" by (cases pr)
  have "manualAuthority (s\<lparr>cameraRef := c\<rparr>) = manualAuthority s" for c
    by (simp add: manualAuthority_def)
  then show ?thesis by (simp add: Some pr controlsUpdate_def dispatchChange_frame)
qed

lemma controlsUpdate_silent:
  "changeListener s = None \<or> outcome = None \<Longrightarrow>
   sceneSettings (controlsUpdate outcome s) = sceneSettings s"
  by (auto simp add: controlsUpdate_def dispatchChange_def split: option.split prod.split)

lemma handleTargetChange_pose:
  "changeListener s = None \<or> outcome = None \<Longrightarrow>
   sceneSettings (handleTargetChange v outcome s) = (sceneSettings s)\<lparr>target := v\<rparr>"
  by (cases "controlsRef s")
    (simp_all add: handleTargetChange_def Let_def updateCamera_frame controlsUpdate_silent,
      simp_all add: updateCamera_def Let_def)

lemma manual_handler_switches_off:
  "isManualEdit e \<Longrightarrow> \<not> orbitControlsEnabled (handler e s)"
  by (cases e)
    (simp_all add: handlePositionChange_def handleCameraRotation_def handleTargetChange_def
        updateCamera_frame controlsUpdate_frame Let_def split: option.split)

lemma manual_handler_kiosk:
  "isManualEdit e \<Longrightarrow> kiosk (handler e s) = kiosk s"
  by (cases e)
    (simp_all add: handlePositionChange_def handleCameraRotation_def handleTargetChange_def
        updateCamera_frame controlsUpdate_frame Let_def split: option.split)

lemma target_handler_keeps_authority:
  assumes "manualAuthority s"
  shows "manualAuthority (handleTargetChange v outcome s)"
proof (cases "controlsRef s")
  case None
  then show ?thesis
    using assms by (simp add: handleTargetChange_def Let_def updateCamera_def manualAuthority_def)
next
  case (Some controls)
  then have "manualAuthority (handleTargetChange v outcome s) =
      manualAuthority
        ((updateCamera \<lparr>upd_position = None, upd_rotation = None, upd_target = Some v\<rparr>
            (s\<lparr>orbitControlsEnabled := False\<rparr>))
         \<lparr>controlsRef := Some (controls\<lparr>ctl_target := vec_of v\<rparr>)\<rparr>)"
    by (simp add: handleTargetChange_def Let_def updateCamera_frame controlsUpdate_authority)
  then show ?thesis
    using assms Some by (simp add: updateCamera_def Let_def manualAuthority_def)
qed

lemma manual_handler_keeps_authority:
  assumes "isManualEdit e" and "manualAuthority s"
  shows "manualAuthority (handler e s)"
proof (cases e)
  case (PositionEdit v)
  show ?thesis
    using assms(2)
    by (auto simp add: PositionEdit handlePositionChange_def Let_def manualAuthority_def
        updateCamera_def split: option.splits)
next
  case (RotationEdit v)
  show ?thesis
    using assms(2)
    by (auto simp add: RotationEdit handleCameraRotation_def Let_def manualAuthority_def
        updateCamera_def split: option.splits)
next
  case (TargetEdit v outcome)
  show ?thesis
    using assms(2) by (simp add: TargetEdit target_handler_keeps_authority)
qed (use assms(1) in simp_all)

lemma effect_establishes_authority:
  "\<not> orbitControlsEnabled s \<Longrightarrow> manualAuthority (orbitControlsEffect s)"
  by (simp add: manualAuthority_def orbitControlsEffect_def Let_def split: option.split)

lemma effect_frame:
  "orbitControlsEnabled (orbitControlsEffect s) = orbitControlsEnabled s"
  "sceneSettings (orbitControlsEffect s) = sceneSettings s"
  by (simp_all add: orbitControlsEffect_def Let_def split: option.split)

lemma initCameraEffect_frame:
  "orbitControlsEnabled (initCameraEffect s) = orbitControlsEnabled s"
  "manualAuthority (initCameraEffect s) = manualAuthority s"
  by (simp_all add: initCameraEffect_def manualAuthority_def Let_def split: option.split)

lemma manual_step_authority:
  assumes m: "isManualEdit e" and inv: "\<not> orbitControlsEnabled s \<longrightarrow> manualAuthority s"
  shows "\<not> orbitControlsEnabled (step e s) \<and> manualAuthority (step e s)"
proof -
  have r: "\<not> refsChange e" using m by (cases e) simp_all
  have off: "\<not> orbitControlsEnabled (handler e s)" by (rule manual_handler_switches_off [OF m])
  have k: "kiosk (handler e s) = kiosk s" by (rule manual_handler_kiosk [OF m])
  show ?thesis
  proof (cases "orbitControlsEnabled s")
    case True
    then have "step e s = orbitControlsEffect (handler e s)"
      using r off by (simp add: step_def Let_def)
    then show ?thesis
      using off effect_establishes_authority [OF off] by (simp add: effect_frame)
  next
    case False
    then have "step e s = handler e s"
      using r off k by (simp add: step_def Let_def)
    moreover have "manualAuthority (handler e s)"
      using inv False manual_handler_keeps_authority [OF m] by simp
    ultimately show ?thesis using off by simp
  qed
qed

lemma manual_step_pose:
  "sceneSettings (step (PositionEdit v) s) = (sceneSettings s)\<lparr>position := map round2 v\<rparr>"
  "sceneSettings (step (RotationEdit v) s) = (sceneSettings s)\<lparr>rotation := map round2 v\<rparr>"
  by (simp_all add: step_def Let_def effect_frame handlePositionChange_pose
      handleCameraRotation_pose)

lemma target_step_pose:
  "changeListener s = None \<or> outcome = None \<Longrightarrow>
   sceneSettings (step (TargetEdit v outcome) s) = (sceneSettings s)\<lparr>target := v\<rparr>"
  by (simp add: step_def Let_def effect_frame handleTargetChange_pose)

subsection \<open>The invariant of the authority\<close>

lemma initial_authority:
  "\<not> orbitControlsEnabled initialViewer \<longrightarrow> manualAuthority initialViewer"
  by (simp add: initialViewer_def)

lemma orbit_change_step:
  "step (OrbitChange pos rot tgt) s =
     dispatchChange
       (s\<lparr>cameraRef := map_option (\<lambda>camera. camera\<lparr>cam_pos := pos, cam_rot := rot\<rparr>) (cameraRef s),
          controlsRef := map_option (\<lambda>controls. controls\<lparr>ctl_target := tgt\<rparr>) (controlsRef s)\<rparr>)"
  by (simp add: step_def Let_def dispatchChange_frame)

lemma moved_authority:
  "manualAuthority
     (s\<lparr>cameraRef := c, controlsRef := map_option (\<lambda>controls. controls\<lparr>ctl_target := tgt\<rparr>) (controlsRef s)\<rparr>) =
   manualAuthority s"
  by (cases "controlsRef s") (simp_all add: manualAuthority_def)

lemma handleModelLoad_frame:
  "orbitControlsEnabled (handleModelLoad g s) = orbitControlsEnabled s"
  "kiosk (handleModelLoad g s) = kiosk s"
  "manualAuthority (handleModelLoad g s) = manualAuthority s"
  by (simp_all add: handleModelLoad_def manualAuthority_def Let_def split: option.split)

lemma reset_cases:
  "resetCameraToViewTarget r s = s \<or> orbitControlsEnabled (resetCameraToViewTarget r s)"
  by (simp add: resetCameraToViewTarget_def Let_def split: option.split)

lemma reset_kiosk: "kiosk (resetCameraToViewTarget r s) = kiosk s"
  by (simp add: resetCameraToViewTarget_def Let_def updateCamera_frame split: option.split)

lemma step_keeps_invariant:
  assumes inv: "\<not> orbitControlsEnabled s \<longrightarrow> manualAuthority s"
  shows "\<not> orbitControlsEnabled (step e s) \<longrightarrow> manualAuthority (step e s)"
proof (cases e)
  case (OrbitChange pos rot tgt)
  show ?thesis
    using inv by (simp add: OrbitChange orbit_change_step dispatchChange_frame moved_authority)
next
  case (PositionEdit v)
  then have "isManualEdit e" by simp
  then show ?thesis using manual_step_authority [OF _ inv] by simp
next
  case (RotationEdit v)
  then have "isManualEdit e" by simp
  then show ?thesis using manual_step_authority [OF _ inv] by simp
next
  case (TargetEdit v outcome)
  then have "isManualEdit e" by simp
  then show ?thesis using manual_step_authority [OF _ inv] by simp
next
  case ToggleOrbit
  have "step ToggleOrbit s = orbitControlsEffect (toggleOrbitControls s)"
    by (simp add: step_def Let_def toggleOrbitControls_def)
  then show ?thesis
    using effect_establishes_authority [of "toggleOrbitControls s"]
    by (simp add: ToggleOrbit effect_frame)
next
  case (ResetCamera r)
  show ?thesis
  proof (cases "resetCameraToViewTarget r s = s")
    case True
    then have "step e s = s" by (simp add: ResetCamera step_def Let_def)
    then show ?thesis using inv by simp
  next
    case False
    then have on: "orbitControlsEnabled (resetCameraToViewTarget r s)"
      using reset_cases [of r s] by simp
    have "orbitControlsEnabled (step e s)"
      using on by (simp add: ResetCamera step_def Let_def effect_frame)
    then show ?thesis by simp
  qed
next
  case (SetKiosk b)
  have m: "manualAuthority (s\<lparr>kiosk := b\<rparr>) = manualAuthority s"
    by (simp add: manualAuthority_def)
  show ?thesis
  proof (cases "b = kiosk s")
    case True
    then have "step e s = s\<lparr>kiosk := b\<rparr>" by (simp add: SetKiosk step_def Let_def)
    then show ?thesis using inv by (simp add: m)
  next
    case False
    then have "step e s = orbitControlsEffect (s\<lparr>kiosk := b\<rparr>)"
      by (simp add: SetKiosk step_def Let_def)
    then show ?thesis
      using effect_establishes_authority [of "s\<lparr>kiosk := b\<rparr>"] by (simp add: effect_frame)
  qed
next
  case (CanvasMounted camera controls)
  show ?thesis
    using effect_establishes_authority [of "s\<lparr>cameraRef := Some camera, controlsRef := Some controls\<rparr>"]
    by (simp add: CanvasMounted step_def Let_def effect_frame initCameraEffect_frame)
next
  case CanvasRemoved
  show ?thesis
    using effect_establishes_authority [of "s\<lparr>cameraRef := None, controlsRef := None\<rparr>"]
    by (simp add: CanvasRemoved step_def Let_def effect_frame initCameraEffect_frame)
next
  case (ModelLoaded g)
  show ?thesis
    using inv by (simp add: ModelLoaded step_def Let_def handleModelLoad_frame)
qed

lemma run_keeps_invariant:
  "\<not> orbitControlsEnabled s \<longrightarrow> manualAuthority s \<Longrightarrow>
   \<not> orbitControlsEnabled (run es s) \<longrightarrow> manualAuthority (run es s)"
proof (induction es arbitrary: s)
  case Nil
  then show ?case by simp
next
  case (Cons e es)
  have "\<not> orbitControlsEnabled (step e s) \<longrightarrow> manualAuthority (step e s)"
    by (rule step_keeps_invariant) (rule Cons.prems)
  then show ?case using Cons.IH by simp
qed

lemma reachable_invariant:
  "\<not> orbitControlsEnabled (run es initialViewer) \<longrightarrow> manualAuthority (run es initialViewer)"
  by (rule run_keeps_invariant) (rule initial_authority)

lemma run_snoc: "run (es @ [e]) s = step e (run es s)"
  by (induction es arbitrary: s) simp_all

lemma step_stays_off:
  assumes "\<not> restoresOrbit e" and "\<not> orbitControlsEnabled s"
  shows "\<not> orbitControlsEnabled (step e s)"
proof (cases e)
  case (OrbitChange pos rot tgt)
  show ?thesis using assms(2) by (simp add: OrbitChange orbit_change_step dispatchChange_frame)
next
  case (PositionEdit v)
  show ?thesis
    by (simp add: PositionEdit step_def Let_def effect_frame handlePositionChange_def
        updateCamera_frame split: option.split)
next
  case (RotationEdit v)
  show ?thesis
    by (simp add: RotationEdit step_def Let_def effect_frame handleCameraRotation_def
        updateCamera_frame split: option.split)
next
  case (TargetEdit v outcome)
  show ?thesis
    by (simp add: TargetEdit step_def Let_def effect_frame handleTargetChange_def
        updateCamera_frame controlsUpdate_frame split: option.split)
next
  case ToggleOrbit
  then show ?thesis using assms(1) by simp
next
  case (ResetCamera r)
  then show ?thesis using assms(1) by simp
next
  case (SetKiosk b)
  show ?thesis using assms(2) by (simp add: SetKiosk step_def Let_def effect_frame)
next
  case (CanvasMounted camera controls)
  show ?thesis
    using assms(2) by (simp add: CanvasMounted step_def Let_def effect_frame initCameraEffect_frame)
next
  case CanvasRemoved
  show ?thesis
    using assms(2) by (simp add: CanvasRemoved step_def Let_def effect_frame initCameraEffect_frame)
next
  case (ModelLoaded g)
  show ?thesis using assms(2) by (simp add: ModelLoaded step_def Let_def handleModelLoad_frame)
qed

lemma run_stays_off:
  "\<forall>e\<in>set es. \<not> restoresOrbit e \<Longrightarrow> \<not> orbitControlsEnabled s \<Longrightarrow>
   \<not> orbitControlsEnabled (run es s)"
proof (induction es arbitrary: s)
  case Nil
  then show ?case by simp
next
  case (Cons e es)
  have "\<not> orbitControlsEnabled (step e s)"
    using Cons.prems by (intro step_stays_off) simp_all
  then show ?case using Cons.IH Cons.prems by simp
qed

lemma orbit_change_without_listener:
  assumes "isOrbitChange e" and "changeListener s = None"
  shows "sceneSettings (step e s) = sceneSettings s"
  using assms by (cases e) (simp_all add: orbit_change_step dispatchChange_def)

subsection \<open>Exclusive authority\<close>

text \<open>
  C1: take any state the scene can reach, then a manual edit of the camera (position,
  rotation or target), then any events among which none is the toggle or the reset.
  Every orbit change among these events leaves the stored pose exactly as it was before
  that event.
\<close>

theorem authority_exclusive:
  assumes "isManualEdit m" and "\<forall>e\<in>set es. \<not> restoresOrbit e"
    and "k < length es" and "isOrbitChange (es ! k)"
  shows "sceneSettings (run (take (Suc k) es) (step m (run pre initialViewer))) =
         sceneSettings (run (take k es) (step m (run pre initialViewer)))"
proof -
  define s1 where "s1 = step m (run pre initialViewer)"
  define sk where "sk = run (take k es) s1"
  have a1: "\<not> orbitControlsEnabled s1 \<and> manualAuthority s1"
    unfolding s1_def by (rule manual_step_authority [OF assms(1) reachable_invariant])
  have "\<forall>e\<in>set (take k es). \<not> restoresOrbit e"
    using assms(2) by (auto dest: in_set_takeD)
  then have off: "\<not> orbitControlsEnabled sk"
    unfolding sk_def using a1 by (intro run_stays_off) simp_all
  have "\<not> orbitControlsEnabled sk \<longrightarrow> manualAuthority sk"
    unfolding sk_def using a1 by (intro run_keeps_invariant) simp
  then have "manualAuthority sk" using off by simp
  then have l: "changeListener sk = None" by (simp add: manualAuthority_def)
  have "take (Suc k) es = take k es @ [es ! k]"
    by (rule take_Suc_conv_app_nth) (rule assms(3))
  then have "run (take (Suc k) es) s1 = step (es ! k) sk"
    by (simp only: run_snoc sk_def)
  then have "sceneSettings (run (take (Suc k) es) s1) = sceneSettings sk"
    by (simp only: orbit_change_without_listener [OF assms(4) l])
  then show ?thesis by (simp only: s1_def sk_def)
qed

lemma mounted_step:
  "step (CanvasMounted camera0 controls0) initialViewer =
     \<lparr> sceneSettings =
         \<lparr> position = [- 35 / 10, 3, 35 / 10], rotation = [0, 0, 0], zoom = 1,
           target = [0, 0, 0], pose_fov = 50, near = 1 / 10, far = 1000 \<rparr>,
       orbitControlsEnabled = True, kiosk = False, cameraRef = Some camera0,
       controlsRef = Some controls0, changeListener = Some True \<rparr>"
  by (simp add: step_def Let_def orbitControlsEffect_def initCameraEffect_def initialViewer_def
      camera0_def controls0_def radToDeg_def vx_def vy_def vz_def)

lemma mounted_viewer:
  "run [CanvasMounted camera0 controls0] initialViewer =
     \<lparr> sceneSettings =
         \<lparr> position = [- 35 / 10, 3, 35 / 10], rotation = [0, 0, 0], zoom = 1,
           target = [0, 0, 0], pose_fov = 50, near = 1 / 10, far = 1000 \<rparr>,
       orbitControlsEnabled = True, kiosk = False, cameraRef = Some camera0,
       controlsRef = Some controls0, changeListener = Some True \<rparr>"
  by (simp add: mounted_step)

lemma round2_small: "round2 1 = 1" "round2 2 = 2" "round2 3 = 3" "round2 0 = 0"
  "round2 (1 / 200) = 1 / 100"
  by (simp_all add: round2_def js_round_def)

theorem authority_exclusive_witness:
  "sceneSettings (run [OrbitChange (9, 9, 9) (0, 0, 0) (0, 0, 0)]
      (step (PositionEdit [1, 2, 3]) (run [CanvasMounted camera0 controls0] initialViewer))) =
   sceneSettings (step (PositionEdit [1, 2, 3]) (run [CanvasMounted camera0 controls0] initialViewer)) \<and>
   position (sceneSettings (step (PositionEdit [1, 2, 3])
      (run [CanvasMounted camera0 controls0] initialViewer))) = [1, 2, 3] \<and>
   position (sceneSettings (run [OrbitChange (9, 9, 9) (0, 0, 0) (0, 0, 0)]
      (run [CanvasMounted camera0 controls0] initialViewer))) = [9, 9, 9]"
proof -
  have m: "isManualEdit (PositionEdit [1, 2, 3])" by simp
  have r: "\<forall>e\<in>set [OrbitChange (9, 9, 9) (0, 0, 0) (0, 0, 0)]. \<not> restoresOrbit e" by simp
  have k: "0 < length [OrbitChange (9, 9, 9) (0, 0, 0) (0, 0, 0)]" by simp
  have o: "isOrbitChange ([OrbitChange (9, 9, 9) (0, 0, 0) (0, 0, 0)] ! 0)" by simp
  have "sceneSettings (run (take (Suc 0) [OrbitChange (9, 9, 9) (0, 0, 0) (0, 0, 0)])
          (step (PositionEdit [1, 2, 3]) (run [CanvasMounted camera0 controls0] initialViewer))) =
        sceneSettings (run (take 0 [OrbitChange (9, 9, 9) (0, 0, 0) (0, 0, 0)])
          (step (PositionEdit [1, 2, 3]) (run [CanvasMounted camera0 controls0] initialViewer)))"
    by (rule authority_exclusive [OF m r k o])
  then have 1: "sceneSettings (run [OrbitChange (9, 9, 9) (0, 0, 0) (0, 0, 0)]
      (step (PositionEdit [1, 2, 3]) (run [CanvasMounted camera0 controls0] initialViewer))) =
   sceneSettings (step (PositionEdit [1, 2, 3]) (run [CanvasMounted camera0 controls0] initialViewer))"
    by simp
  have 2: "position (sceneSettings (step (PositionEdit [1, 2, 3])
      (run [CanvasMounted camera0 controls0] initialViewer))) = [1, 2, 3]"
    by (simp add: manual_step_pose round2_small mounted_step)
  have 3: "position (sceneSettings (run [OrbitChange (9, 9, 9) (0, 0, 0) (0, 0, 0)]
      (run [CanvasMounted camera0 controls0] initialViewer))) = [9, 9, 9]"
    by (simp only: run.simps mounted_step orbit_change_step)
      (simp add: dispatchChange_def handleChange_def Let_def vx_def vy_def vz_def)
  from 1 2 3 show ?thesis by blast
qed

subsection \<open>What a manual edit changes\<close>

text \<open>
  In any state the scene can reach, a manual edit leaves the orbit controls switched
  off: no listener is registered and the controls have every switch off. The edits of
  the position and of the rotation change their own field of the pose alone, and so does
  the edit of the target when no listener is registered or \<^verbatim>\<open>controls.update()\<close>
  dispatches nothing.
\<close>

lemma manual_edit_switches_off:
  "isManualEdit e \<Longrightarrow>
   \<not> orbitControlsEnabled (step e (run es initialViewer)) \<and>
   manualAuthority (step e (run es initialViewer))"
  by (rule manual_step_authority [OF _ reachable_invariant])

lemma target_edit_heard:
  assumes "changeListener s = Some True" and "cameraRef s = Some camera"
    and "controlsRef s = Some controls"
  shows "sceneSettings (step (TargetEdit v (Some (pos, rot))) s) =
           (sceneSettings s)\<lparr>position := arr pos, target := arr (vec_of v),
                              rotation := map radToDeg (arr rot)\<rparr>"
  using assms
  by (simp add: step_def Let_def effect_frame handleTargetChange_def updateCamera_def
      controlsUpdate_def dispatchChange_def handleChange_def arr_def)

text \<open>
  C8: the canvas is mounted and the orbit controls have the authority, so their
  listener is registered; the camera stands at \<open>(-3.5, 3, 3.5)\<close> with the rotation
  \<open>(0, 0, 0)\<close>. The target is edited to \<open>(0.5, 3, -0.5)\<close>. Inside the handler
  \<^verbatim>\<open>controls.update()\<close> turns the camera to the new target, which is the rotation
  \<open>(0, -\<pi>/4, 0)\<close>, and dispatches \<^verbatim>\<open>'change'\<close>; the listener stores the rotation of the
  camera. The stored rotation goes from \<open>(0, 0, 0)\<close> to \<open>(0, -45, 0)\<close> although the
  target alone was edited. The edit does switch the orbit controls off: no listener is
  left and pan, zoom, rotate and \<^verbatim>\<open>enabled\<close> of the controls are off. The same edit
  made after an edit of the rotation, when no listener is registered any more, changes
  the target alone.
\<close>

theorem target_edit_rewrites_rotation:
  "sceneSettings (run [CanvasMounted camera0 controls0] initialViewer) =
     \<lparr> position = [- 35 / 10, 3, 35 / 10], rotation = [0, 0, 0], zoom = 1,
       target = [0, 0, 0], pose_fov = 50, near = 1 / 10, far = 1000 \<rparr> \<and>
   sceneSettings (run [CanvasMounted camera0 controls0,
       TargetEdit [1 / 2, 3, - 1 / 2] (Some ((- 35 / 10, 3, 35 / 10), (0, - pi / 4, 0)))]
      initialViewer) =
     \<lparr> position = [- 35 / 10, 3, 35 / 10], rotation = [0, - 45, 0], zoom = 1,
       target = [1 / 2, 3, - 1 / 2], pose_fov = 50, near = 1 / 10, far = 1000 \<rparr> \<and>
   orbitControlsEnabled (run [CanvasMounted camera0 controls0,
       TargetEdit [1 / 2, 3, - 1 / 2] (Some ((- 35 / 10, 3, 35 / 10), (0, - pi / 4, 0)))]
      initialViewer) = False \<and>
   changeListener (run [CanvasMounted camera0 controls0,
       TargetEdit [1 / 2, 3, - 1 / 2] (Some ((- 35 / 10, 3, 35 / 10), (0, - pi / 4, 0)))]
      initialViewer) = None \<and>
   controlsRef (run [CanvasMounted camera0 controls0,
       TargetEdit [1 / 2, 3, - 1 / 2] (Some ((- 35 / 10, 3, 35 / 10), (0, - pi / 4, 0)))]
      initialViewer) =
     Some \<lparr> ctl_target = (1 / 2, 3, - 1 / 2), ctl_enabled = False, enablePan = False,
            enableZoom = False, enableRotate = False \<rparr> \<and>
   sceneSettings (run [CanvasMounted camera0 controls0, RotationEdit [0, 0, 0],
       TargetEdit [1 / 2, 3, - 1 / 2] (Some ((- 35 / 10, 3, 35 / 10), (0, - pi / 4, 0)))]
      initialViewer) =
     \<lparr> position = [- 35 / 10, 3, 35 / 10], rotation = [0, 0, 0], zoom = 1,
       target = [1 / 2, 3, - 1 / 2], pose_fov = 50, near = 1 / 10, far = 1000 \<rparr>"
proof -
  define m where "m = run [CanvasMounted camera0 controls0] initialViewer"
  have m: "m = \<lparr> sceneSettings =
         \<lparr> position = [- 35 / 10, 3, 35 / 10], rotation = [0, 0, 0], zoom = 1,
           target = [0, 0, 0], pose_fov = 50, near = 1 / 10, far = 1000 \<rparr>,
       orbitControlsEnabled = True, kiosk = False, cameraRef = Some camera0,
       controlsRef = Some controls0, changeListener = Some True \<rparr>"
    by (simp only: m_def mounted_viewer)
  have 1: "sceneSettings m =
     \<lparr> position = [- 35 / 10, 3, 35 / 10], rotation = [0, 0, 0], zoom = 1,
       target = [0, 0, 0], pose_fov = 50, near = 1 / 10, far = 1000 \<rparr>"
    by (simp add: m)
  have "sceneSettings (step (TargetEdit [1 / 2, 3, - 1 / 2] (Some ((- 35 / 10, 3, 35 / 10), (0, - pi / 4, 0)))) m) =
      (sceneSettings m)\<lparr>position := arr (- 35 / 10, 3, 35 / 10),
         target := arr (vec_of [1 / 2, 3, - 1 / 2]),
         rotation := map radToDeg (arr (0, - pi / 4, 0))\<rparr>"
    by (rule target_edit_heard) (simp_all add: m)
  then have 2: "sceneSettings (step (TargetEdit [1 / 2, 3, - 1 / 2] (Some ((- 35 / 10, 3, 35 / 10), (0, - pi / 4, 0)))) m) =
     \<lparr> position = [- 35 / 10, 3, 35 / 10], rotation = [0, - 45, 0], zoom = 1,
       target = [1 / 2, 3, - 1 / 2], pose_fov = 50, near = 1 / 10, far = 1000 \<rparr>"
    by (simp add: 1 arr_def vec_of_def vx_def vy_def vz_def radToDeg_def)
  have e: "isManualEdit (TargetEdit [1 / 2, 3, - 1 / 2] (Some ((- 35 / 10, 3, 35 / 10), (0, - pi / 4, 0))))"
    by simp
  have 3: "\<not> orbitControlsEnabled
      (step (TargetEdit [1 / 2, 3, - 1 / 2] (Some ((- 35 / 10, 3, 35 / 10), (0, - pi / 4, 0)))) m) \<and>
    manualAuthority
      (step (TargetEdit [1 / 2, 3, - 1 / 2] (Some ((- 35 / 10, 3, 35 / 10), (0, - pi / 4, 0)))) m)"
    unfolding m_def by (rule manual_edit_switches_off [OF e])
  then have l: "changeListener
      (step (TargetEdit [1 / 2, 3, - 1 / 2] (Some ((- 35 / 10, 3, 35 / 10), (0, - pi / 4, 0)))) m) = None"
    by (simp add: manualAuthority_def)
  have c: "controlsRef
      (step (TargetEdit [1 / 2, 3, - 1 / 2] (Some ((- 35 / 10, 3, 35 / 10), (0, - pi / 4, 0)))) m) =
     Some \<lparr> ctl_target = (1 / 2, 3, - 1 / 2), ctl_enabled = False, enablePan = False,
            enableZoom = False, enableRotate = False \<rparr>"
    by (simp add: m step_def Let_def handleTargetChange_def updateCamera_def controlsUpdate_def
        dispatchChange_def handleChange_def orbitControlsEffect_def controls0_def vec_of_def)
  define r where "r = run [CanvasMounted camera0 controls0, RotationEdit [0, 0, 0]] initialViewer"
  have r: "r = step (RotationEdit [0, 0, 0]) m" by (simp add: r_def m_def)
  have ra: "manualAuthority r"
    using manual_edit_switches_off [of "RotationEdit [0, 0, 0]" "[CanvasMounted camera0 controls0]"]
    by (simp add: r m_def)
  then have rl: "changeListener r = None" by (simp add: manualAuthority_def)
  have rs: "sceneSettings r = sceneSettings m"
    by (simp add: r manual_step_pose round2_small 1)
  have 4: "sceneSettings (step (TargetEdit [1 / 2, 3, - 1 / 2] (Some ((- 35 / 10, 3, 35 / 10), (0, - pi / 4, 0)))) r) =
     \<lparr> position = [- 35 / 10, 3, 35 / 10], rotation = [0, 0, 0], zoom = 1,
       target = [1 / 2, 3, - 1 / 2], pose_fov = 50, near = 1 / 10, far = 1000 \<rparr>"
    using rl by (simp add: target_step_pose rs 1)
  have u: "run [CanvasMounted camera0 controls0, e1] initialViewer = step e1 m"
    "run [CanvasMounted camera0 controls0, e1, e2] initialViewer =
       step e2 (run [CanvasMounted camera0 controls0, e1] initialViewer)" for e1 e2
    by (simp_all add: m_def)
  from 3 have o: "orbitControlsEnabled
      (step (TargetEdit [1 / 2, 3, - 1 / 2] (Some ((- 35 / 10, 3, 35 / 10), (0, - pi / 4, 0)))) m) = False"
    by simp
  from 1 2 o l c 4 show ?thesis by (simp only: u r_def m_def [symmetric])
qed

subsection \<open>Rounding of the stored rotation\<close>

lemma round2_idem: "round2 (round2 v) = round2 v"
proof -
  have "js_round (of_int k) = of_int k" for k :: int
    by (simp add: js_round_def)
  then show ?thesis by (simp add: round2_def js_round_def)
qed

text \<open>
  C4: the canvas is mounted, then the orbit controls turn the camera to the rotation
  \<open>(\<pi> / 36000, 0, 0)\<close> in radians, that is 0.005 degrees, and dispatch their change.
  The listener stores 0.005, which the rounding to two decimals would turn into 0.01.
  The manual edit of the same rotation stores 0.01.
\<close>

theorem orbit_change_stores_unrounded:
  "rotation (sceneSettings (run [CanvasMounted camera0 controls0,
       OrbitChange (0, 0, 5) (pi / 36000, 0, 0) (0, 0, 0)] initialViewer)) = [1 / 200, 0, 0] \<and>
   round2 (1 / 200) = 1 / 100 \<and>
   round2 (1 / 200) \<noteq> 1 / 200 \<and>
   rotation (sceneSettings (run [CanvasMounted camera0 controls0,
       RotationEdit [1 / 200, 0, 0]] initialViewer)) = [1 / 100, 0, 0]"
proof -
  have s: "run [CanvasMounted camera0 controls0, e] initialViewer =
           step e (run [CanvasMounted camera0 controls0] initialViewer)" for e
    by simp
  have 1: "rotation (sceneSettings (run [CanvasMounted camera0 controls0,
       OrbitChange (0, 0, 5) (pi / 36000, 0, 0) (0, 0, 0)] initialViewer)) = [1 / 200, 0, 0]"
    by (simp only: s mounted_viewer orbit_change_step)
      (simp add: dispatchChange_def handleChange_def Let_def radToDeg_def vx_def vy_def vz_def)
  have 2: "rotation (sceneSettings (run [CanvasMounted camera0 controls0,
       RotationEdit [1 / 200, 0, 0]] initialViewer)) = [1 / 100, 0, 0]"
    by (simp only: s manual_step_pose mounted_viewer) (simp add: round2_small)
  from 1 2 show ?thesis by (simp add: round2_small)
qed

end
